theory Spec2Isabelle
  imports Complex_Main "HOL-Library.AList" "HOL-Library.Word"
begin

section \<open>Values, exceptions and the Python operations the adapters use\<close>

text \<open>
  The backend handles decoded JSON: configuration objects sent by the client, messages
  of the Deepgram channel (\<^verbatim>\<open>json.loads\<close>) and the dictionaries the Speechmatics SDK
  hands to the registered handlers. \<open>json\<close> is that universe of values. A dictionary is
  an association list in insertion order with distinct keys (what a Python \<^verbatim>\<open>dict\<close>
  is); \<^verbatim>\<open>d[k] = v\<close> is \<open>AList.update\<close>, which overwrites in place or appends.

  Numbers: a Python \<^verbatim>\<open>int\<close> is \<open>JInt\<close>; a Python \<^verbatim>\<open>float\<close> is \<open>JFloat\<close> over the
  rationals, so float arithmetic is exact here (no rounding, no NaN, no infinities).
  Strings are byte lists, so everything said about characters is about ASCII text.
\<close>

datatype json =
    JNull
  | JBool bool
  | JInt int
  | JFloat rat
  | JStr string
  | JList "json list"
  | JObj "(string \<times> json) list"

datatype exc_class =
    JSONDecodeError | ConnectionClosed | KeyError | IndexError | TypeError
  | AttributeError | ValueError | RuntimeError | OtherError

text \<open>An exception: its class and \<^verbatim>\<open>str(e)\<close>. The texts of interpreter-raised errors
  follow CPython 3.11; nothing below depends on their wording.\<close>

datatype exc = Exc exc_class string

fun str_exc :: "exc \<Rightarrow> string" where
  "str_exc (Exc c m) = m"

fun is_exception :: "exc \<Rightarrow> exc_class \<Rightarrow> bool" where
  "is_exception (Exc c m) c' = (c = c')"

definition squote :: "string \<Rightarrow> string" where
  "squote s = [CHR 0x27] @ s @ [CHR 0x27]"

definition dquote :: "string \<Rightarrow> string" where
  "dquote s = [CHR 0x22] @ s @ [CHR 0x22]"

fun py_type_name :: "json \<Rightarrow> string" where
  "py_type_name JNull = ''NoneType''"
| "py_type_name (JBool b) = ''bool''"
| "py_type_name (JInt i) = ''int''"
| "py_type_name (JFloat r) = ''float''"
| "py_type_name (JStr s) = ''str''"
| "py_type_name (JList xs) = ''list''"
| "py_type_name (JObj kvs) = ''dict''"

text \<open>\<^verbatim>\<open>bool(v)\<close>, as \<^verbatim>\<open>if v:\<close> evaluates it.\<close>

fun py_truthy :: "json \<Rightarrow> bool" where
  "py_truthy JNull = False"
| "py_truthy (JBool b) = b"
| "py_truthy (JInt i) = (i \<noteq> 0)"
| "py_truthy (JFloat r) = (r \<noteq> 0)"
| "py_truthy (JStr s) = (s \<noteq> [])"
| "py_truthy (JList xs) = (xs \<noteq> [])"
| "py_truthy (JObj kvs) = (kvs \<noteq> [])"

text \<open>\<^verbatim>\<open>s.startswith(p)\<close> and \<^verbatim>\<open>p in s\<close> on strings.\<close>

fun startswith :: "string \<Rightarrow> string \<Rightarrow> bool" where
  "startswith s [] = True"
| "startswith [] (p # ps) = False"
| "startswith (c # cs) (p # ps) = (c = p \<and> startswith cs ps)"

fun str_contains :: "string \<Rightarrow> string \<Rightarrow> bool" where
  "str_contains [] p = (p = [])"
| "str_contains (c # cs) p = (startswith (c # cs) p \<or> str_contains cs p)"

text \<open>\<^verbatim>\<open>k in v\<close> for a string \<open>k\<close>: key membership on a dictionary, element membership on
  a list, substring test on a string, \<^verbatim>\<open>TypeError\<close> on everything else.\<close>

fun py_contains :: "string \<Rightarrow> json \<Rightarrow> exc + bool" where
  "py_contains k (JObj kvs) = Inr (map_of kvs k \<noteq> None)"
| "py_contains k (JList xs) = Inr (JStr k \<in> set xs)"
| "py_contains k (JStr s) = Inr (str_contains s k)"
| "py_contains k v =
     Inl (Exc TypeError (''argument of type '' @ squote (py_type_name v) @ '' is not iterable''))"

text \<open>\<^verbatim>\<open>v.get(k, d)\<close>: only a dictionary has the method.\<close>

fun py_get :: "json \<Rightarrow> string \<Rightarrow> json \<Rightarrow> exc + json" where
  "py_get (JObj kvs) k d = Inr (case map_of kvs k of None \<Rightarrow> d | Some x \<Rightarrow> x)"
| "py_get v k d =
     Inl (Exc AttributeError
       (squote (py_type_name v) @ '' object has no attribute '' @ squote ''get''))"

text \<open>\<^verbatim>\<open>v[k]\<close> for a string \<open>k\<close>.\<close>

fun py_getitem :: "json \<Rightarrow> string \<Rightarrow> exc + json" where
  "py_getitem (JObj kvs) k =
     (case map_of kvs k of None \<Rightarrow> Inl (Exc KeyError (squote k)) | Some x \<Rightarrow> Inr x)"
| "py_getitem (JList xs) k =
     Inl (Exc TypeError ''list indices must be integers or slices, not str'')"
| "py_getitem (JStr s) k =
     Inl (Exc TypeError (''string indices must be integers, not '' @ squote ''str''))"
| "py_getitem v k =
     Inl (Exc TypeError (squote (py_type_name v) @ '' object is not subscriptable''))"

text \<open>\<^verbatim>\<open>v[0]\<close>.\<close>

fun py_getitem0 :: "json \<Rightarrow> exc + json" where
  "py_getitem0 (JList []) = Inl (Exc IndexError ''list index out of range'')"
| "py_getitem0 (JList (x # xs)) = Inr x"
| "py_getitem0 (JStr []) = Inl (Exc IndexError ''string index out of range'')"
| "py_getitem0 (JStr (c # cs)) = Inr (JStr [c])"
| "py_getitem0 (JObj kvs) = Inl (Exc KeyError ''0'')"
| "py_getitem0 v =
     Inl (Exc TypeError (squote (py_type_name v) @ '' object is not subscriptable''))"

text \<open>\<^verbatim>\<open>for x in v\<close>: the elements of a list, the keys of a dictionary, the characters
  of a string.\<close>

fun py_iter :: "json \<Rightarrow> exc + json list" where
  "py_iter (JList xs) = Inr xs"
| "py_iter (JObj kvs) = Inr (map (\<lambda>kv. JStr (fst kv)) kvs)"
| "py_iter (JStr s) = Inr (map (\<lambda>c. JStr [c]) s)"
| "py_iter v =
     Inl (Exc TypeError (squote (py_type_name v) @ '' object is not iterable''))"

text \<open>\<^verbatim>\<open>v * n\<close> for an integer literal \<open>n\<close> (the code only multiplies by 1000): numbers
  are multiplied, \<^verbatim>\<open>True\<close> and \<^verbatim>\<open>False\<close> count as 1 and 0, strings and lists are
  repeated, \<^verbatim>\<open>None\<close> and dictionaries raise.\<close>

fun py_mul :: "json \<Rightarrow> int \<Rightarrow> exc + json" where
  "py_mul (JInt i) n = Inr (JInt (i * n))"
| "py_mul (JBool b) n = Inr (JInt (of_bool b * n))"
| "py_mul (JFloat r) n = Inr (JFloat (r * of_int n))"
| "py_mul (JStr s) n = Inr (JStr (concat (replicate (nat n) s)))"
| "py_mul (JList xs) n = Inr (JList (concat (replicate (nat n) xs)))"
| "py_mul v n =
     Inl (Exc TypeError (''unsupported operand type(s) for *: '' @ squote (py_type_name v)
            @ '' and '' @ squote ''int''))"

text \<open>The numeric value of an operand of \<^verbatim>\<open>+\<close>: \<open>Inl\<close> an exact integer, \<open>Inr\<close> a float.\<close>

fun py_number :: "json \<Rightarrow> (int + rat) option" where
  "py_number (JInt i) = Some (Inl i)"
| "py_number (JBool b) = Some (Inl (of_bool b))"
| "py_number (JFloat r) = Some (Inr r)"
| "py_number v = None"

fun num_rat :: "int + rat \<Rightarrow> rat" where
  "num_rat (Inl i) = of_int i"
| "num_rat (Inr r) = r"

definition add_type_error :: "json \<Rightarrow> json \<Rightarrow> exc" where
  "add_type_error a b =
     (case a of
        JStr s \<Rightarrow> Exc TypeError (''can only concatenate str (not ''
                    @ dquote (py_type_name b) @ '') to str'')
      | JList xs \<Rightarrow> Exc TypeError (''can only concatenate list (not ''
                    @ dquote (py_type_name b) @ '') to list'')
      | _ \<Rightarrow> Exc TypeError (''unsupported operand type(s) for +: '' @ squote (py_type_name a)
                    @ '' and '' @ squote (py_type_name b)))"

text \<open>\<^verbatim>\<open>a + b\<close>: integer addition when both are integers (or booleans), float addition
  when one is a float, concatenation of two strings or two lists.\<close>

definition py_add :: "json \<Rightarrow> json \<Rightarrow> exc + json" where
  "py_add a b =
     (case (py_number a, py_number b) of
        (Some (Inl i), Some (Inl j)) \<Rightarrow> Inr (JInt (i + j))
      | (Some x, Some y) \<Rightarrow> Inr (JFloat (num_rat x + num_rat y))
      | _ \<Rightarrow>
         (case (a, b) of
            (JStr s, JStr t) \<Rightarrow> Inr (JStr (s @ t))
          | (JList xs, JList ys) \<Rightarrow> Inr (JList (xs @ ys))
          | _ \<Rightarrow> Inl (add_type_error a b)))"

subsection \<open>\<^verbatim>\<open>int(s)\<close> on a string\<close>

text \<open>
  \<^verbatim>\<open>int\<close> strips surrounding whitespace, accepts one sign and then decimal digits
  in which single underscores may separate digits. More than 4300 digits are refused
  (the interpreter's default limit).
\<close>

definition is_space :: "char \<Rightarrow> bool" where
  "is_space c = (c \<in> set [CHR 0x09, CHR 0x0A, CHR 0x0B, CHR 0x0C, CHR 0x0D,
                          CHR 0x1C, CHR 0x1D, CHR 0x1E, CHR 0x1F, CHR 0x20])"

definition is_digit :: "char \<Rightarrow> bool" where
  "is_digit c = (c \<in> set ''0123456789'')"

definition digit_val :: "char \<Rightarrow> int" where
  "digit_val c = of_char c - 48"

definition strip :: "string \<Rightarrow> string" where
  "strip s = rev (dropWhile is_space (rev (dropWhile is_space s)))"

text \<open>\<open>int_digits acc after_digit s\<close> reads digits and underscores; \<open>after_digit\<close>
  says whether the previous character was a digit (an underscore is legal only then,
  and not at the end).\<close>

fun int_digits :: "int \<Rightarrow> bool \<Rightarrow> string \<Rightarrow> int option" where
  "int_digits acc after_digit [] = (if after_digit then Some acc else None)"
| "int_digits acc after_digit (c # cs) =
     (if is_digit c then int_digits (acc * 10 + digit_val c) True cs
      else if c = CHR ''_'' \<and> after_digit then int_digits acc False cs
      else None)"

definition invalid_literal :: "string \<Rightarrow> exc" where
  "invalid_literal s =
     Exc ValueError (''invalid literal for int() with base 10: '' @ squote s)"

definition py_int :: "string \<Rightarrow> exc + int" where
  "py_int s =
     (let t = strip s;
          (neg, body) = (case t of
                           c # cs \<Rightarrow> if c = CHR ''-'' then (True, cs)
                                     else if c = CHR ''+'' then (False, cs)
                                     else (False, t)
                         | [] \<Rightarrow> (False, t))
      in case int_digits 0 False body of
           None \<Rightarrow> Inl (invalid_literal s)
         | Some n \<Rightarrow>
             if length (filter is_digit body) > 4300
             then Inl (Exc ValueError
                    ''Exceeds the limit (4300 digits) for integer string conversion'')
             else Inr (if neg then - n else n))"

text \<open>\<^verbatim>\<open>len(v)\<close>.\<close>

fun py_len :: "json \<Rightarrow> exc + int" where
  "py_len (JList xs) = Inr (int (length xs))"
| "py_len (JStr s) = Inr (int (length s))"
| "py_len (JObj kvs) = Inr (int (length kvs))"
| "py_len v =
     Inl (Exc TypeError (''object of type '' @ squote (py_type_name v) @ '' has no len()''))"

text \<open>Sequencing of computations that may raise: the first exception ends the block.\<close>

fun then_do :: "exc + 'a \<Rightarrow> ('a \<Rightarrow> exc + 'b) \<Rightarrow> exc + 'b" where
  "then_do (Inl e) f = Inl e"
| "then_do (Inr x) f = f x"

section \<open>The client channel, the log and the provider base class\<close>

text \<open>
  A client connection is identified by a number. Its channel either accepts text
  frames or raises on every write (a client that has gone away); which exception it
  raises is the environment's choice. A frame is the value given to \<^verbatim>\<open>json.dumps\<close>:
  serialisation itself is not modelled.

  A log record keeps the level, the message template and the interpolated values,
  so no value has to be rendered as text.

  Every operation below is one atomic step on the state: the interleaving of
  coroutines at their \<^verbatim>\<open>await\<close> points is not modelled.
\<close>

type_synonym ws_id = nat

record client_chan =
  chan_fault :: "exc option"
  chan_out :: "json list"

datatype log_level = Info | Error | Print

datatype log_entry = Log log_level string "json list"

record world =
  clients :: "ws_id \<Rightarrow> client_chan"
  logged :: "log_entry list"

type_synonym 's eff = "(exc + unit) \<times> 's"

definition logger :: "log_level \<Rightarrow> string \<Rightarrow> json list \<Rightarrow> world \<Rightarrow> world" where
  "logger lvl msg args w = w\<lparr>logged := logged w @ [Log lvl msg args]\<rparr>"

text \<open>\<^verbatim>\<open>await websocket.send_text(json.dumps(v))\<close>\<close>

definition send_text :: "ws_id \<Rightarrow> json \<Rightarrow> world \<Rightarrow> world eff" where
  "send_text ws v w =
     (case chan_fault (clients w ws) of
        Some e \<Rightarrow> (Inl e, w)
      | None \<Rightarrow>
          (Inr (), w\<lparr>clients := (clients w)
                      (ws := (clients w ws)\<lparr>chan_out := chan_out (clients w ws) @ [v]\<rparr>)\<rparr>))"

text \<open>The frames a step added to a client's channel.\<close>

definition new_frames :: "ws_id \<Rightarrow> world \<Rightarrow> world \<Rightarrow> json list" where
  "new_frames ws w w' = drop (length (chan_out (clients w ws))) (chan_out (clients w' ws))"

text \<open>The vendor side of a Deepgram adapter: a duplex channel on which the adapter
  sends audio (binary frames) and control messages (text frames).\<close>

type_synonym bytes = "8 word list"

datatype frame = Binary bytes | Text json

record vendor_ws =
  closed :: bool
  outbox :: "frame list"

text \<open>\<^verbatim>\<open>BaseSTTProvider\<close> (base_provider.py): the fields set by \<^verbatim>\<open>__init__\<close>.\<close>

record base_provider =
  api_key :: json
  config :: json
  websocket :: ws_id
  is_connected :: bool
  provider_websocket :: "vendor_ws option"

text \<open>\<^verbatim>\<open>send_result_to_client\<close> (base_provider.py 36-43). \<open>name\<close> is what
  \<^verbatim>\<open>get_provider_name()\<close> returns for the adapter.\<close>

definition send_result_to_client ::
  "string \<Rightarrow> ws_id \<Rightarrow> (string \<times> json) list \<Rightarrow> world \<Rightarrow> world eff" where
  "send_result_to_client name ws result w =
     (case send_text ws (JObj (AList.update ''provider'' (JStr name) result)) w of
        (Inl e, w') \<Rightarrow>
          (Inr (), logger Print ''Error sending result to client: {}'' [JStr (str_exc e)] w')
      | (Inr u, w') \<Rightarrow> (Inr u, w'))"

text \<open>\<^verbatim>\<open>send_error_to_client\<close> (base_provider.py 45-51).\<close>

definition error_event :: "string \<Rightarrow> string \<Rightarrow> json" where
  "error_event name error_message =
     JObj [(''provider'', JStr name), (''error'', JStr error_message)]"

definition send_error_to_client :: "string \<Rightarrow> ws_id \<Rightarrow> string \<Rightarrow> world \<Rightarrow> world eff" where
  "send_error_to_client name ws error_message w =
     send_result_to_client name ws
       [(''provider'', JStr name), (''error'', JStr error_message)] w"

section \<open>The Speechmatics adapter: message handlers\<close>

text \<open>The SDK client is outside the repository. It is seen through the calls
  the adapter completes on it.\<close>

datatype sdk_call = SdkConnect | SdkSendAudio bytes | SdkClose

record voice_agent_client =
  sdk_calls :: "sdk_call list"

record speechmatics_provider = base_provider +
  voice_client :: "voice_agent_client option"

definition speechmatics_name :: string where
  "speechmatics_name = ''speechmatics''"

text \<open>The speaker block shared by both segment handlers (speechmatics_provider.py
  162-169 and 192-200): the value stored under \<^verbatim>\<open>"speaker"\<close>, if any.\<close>

definition segment_speaker :: "json \<Rightarrow> exc + json option" where
  "segment_speaker segment =
     then_do (py_contains ''speaker_id'' segment) (\<lambda>present.
       if \<not> present then Inr None
       else then_do (py_getitem segment ''speaker_id'') (\<lambda>speaker_id.
         case speaker_id of
           JNull \<Rightarrow> Inr None
         | JStr s \<Rightarrow>
             if startswith s ''S''
             then then_do (py_int (drop 1 s)) (\<lambda>n. Inr (Some (JInt (n - 1))))
             else Inr (Some speaker_id)
         | _ \<Rightarrow> Inr (Some speaker_id)))"

definition with_speaker :: "json option \<Rightarrow> (string \<times> json) list \<Rightarrow> (string \<times> json) list" where
  "with_speaker sp d = (case sp of None \<Rightarrow> d | Some v \<Rightarrow> AList.update ''speaker'' v d)"

text \<open>The event built for one segment of an \<^verbatim>\<open>ADD_PARTIAL_SEGMENT\<close> message
  (speechmatics_provider.py 153-169).\<close>

definition partial_transcript :: "json \<Rightarrow> exc + json" where
  "partial_transcript segment =
     then_do (py_get segment ''text'' (JStr [])) (\<lambda>text.
     then_do (py_get segment ''start_time'' (JInt 0)) (\<lambda>st.
     then_do (py_mul st 1000) (\<lambda>start_ms.
     then_do (py_get segment ''end_time'' (JInt 0)) (\<lambda>et.
     then_do (py_mul et 1000) (\<lambda>end_ms.
     then_do (segment_speaker segment) (\<lambda>sp.
       Inr (JObj [(''provider'', JStr speechmatics_name),
                  (''transcript'', JObj (with_speaker sp
                     [(''text'', text), (''is_final'', JBool False),
                      (''start_ms'', start_ms), (''end_ms'', end_ms)]))])))))))"

fun partial_segments_loop :: "ws_id \<Rightarrow> json list \<Rightarrow> world \<Rightarrow> world eff" where
  "partial_segments_loop ws [] w = (Inr (), w)"
| "partial_segments_loop ws (segment # segments) w =
     (case partial_transcript segment of
        Inl e \<Rightarrow> (Inl e, w)
      | Inr transcript \<Rightarrow>
          (case send_text ws transcript w of
             (Inl e, w') \<Rightarrow> (Inl e, w')
           | (Inr u, w') \<Rightarrow> partial_segments_loop ws segments w'))"

text \<open>\<^verbatim>\<open>_handle_partial_segments\<close> (speechmatics_provider.py 142-172).\<close>

definition handle_partial_segments ::
  "'a speechmatics_provider_scheme \<Rightarrow> json \<Rightarrow> world \<Rightarrow> world eff" where
  "handle_partial_segments self message w =
     (case (case then_do (py_getitem message ''segments'') py_iter of
              Inl e \<Rightarrow> (Inl e, w)
            | Inr segments \<Rightarrow> partial_segments_loop (websocket self) segments w) of
        (Inl e, w') \<Rightarrow>
          (Inr (), logger Error ''Error handling partial segments: {}'' [JStr (str_exc e)] w')
      | (Inr u, w') \<Rightarrow> (Inr u, w'))"

text \<open>The event built for one segment of an \<^verbatim>\<open>ADD_SEGMENT\<close> message
  (speechmatics_provider.py 182-200).\<close>

definition final_transcript :: "json \<Rightarrow> exc + json" where
  "final_transcript segment =
     then_do (py_get segment ''text'' (JStr [])) (\<lambda>text.
     then_do (py_get segment ''start_time'' (JInt 0)) (\<lambda>st.
     then_do (py_mul st 1000) (\<lambda>start_ms.
     then_do (py_get segment ''end_time'' (JInt 0)) (\<lambda>et.
     then_do (py_mul et 1000) (\<lambda>end_ms.
     then_do (py_get segment ''confidence'' (JFloat 0)) (\<lambda>confidence.
     then_do (segment_speaker segment) (\<lambda>sp.
       Inr (JObj [(''provider'', JStr speechmatics_name),
                  (''transcript'', JObj (with_speaker sp
                     [(''text'', text), (''is_final'', JBool True),
                      (''start_ms'', start_ms), (''end_ms'', end_ms),
                      (''confidence'', confidence)]))]))))))))"

text \<open>The log line written when a speaker was added (speechmatics_provider.py 201).\<close>

definition log_added_speaker :: "json \<Rightarrow> json \<Rightarrow> world \<Rightarrow> world" where
  "log_added_speaker segment transcript w =
     (case then_do (py_contains ''speaker_id'' segment) (\<lambda>present.
             if present then py_getitem segment ''speaker_id'' else Inr JNull) of
        Inr JNull \<Rightarrow> w
      | Inr speaker_id \<Rightarrow>
          (case then_do (py_getitem transcript ''transcript'') (\<lambda>t. py_getitem t ''speaker'') of
             Inr sp \<Rightarrow> logger Info ''Added speaker ID: {} -> {}'' [speaker_id, sp] w
           | Inl e \<Rightarrow> w)
      | Inl e \<Rightarrow> w)"

fun final_segments_loop :: "ws_id \<Rightarrow> json list \<Rightarrow> world \<Rightarrow> world eff" where
  "final_segments_loop ws [] w = (Inr (), w)"
| "final_segments_loop ws (segment # segments) w =
     (let w1 = logger Info ''Final segment data: {}'' [segment] w in
      case final_transcript segment of
        Inl e \<Rightarrow> (Inl e, w1)
      | Inr transcript \<Rightarrow>
          (case send_text ws transcript (log_added_speaker segment transcript w1) of
             (Inl e, w') \<Rightarrow> (Inl e, w')
           | (Inr u, w') \<Rightarrow>
               final_segments_loop ws segments
                 (logger Info ''Sent final transcript: {}'' [transcript] w')))"

text \<open>\<^verbatim>\<open>_handle_final_segments\<close> (speechmatics_provider.py 174-206).\<close>

definition handle_final_segments ::
  "'a speechmatics_provider_scheme \<Rightarrow> json \<Rightarrow> world \<Rightarrow> world eff" where
  "handle_final_segments self message w =
     (let w0 = logger Info ''Received final segments message: {}'' [message] w in
      case (case py_getitem message ''segments'' of
              Inl e \<Rightarrow> (Inl e, w0)
            | Inr segments \<Rightarrow>
                (case py_len segments of
                   Inl e \<Rightarrow> (Inl e, w0)
                 | Inr n \<Rightarrow>
                     (let w1 = logger Info ''Number of final segments: {}'' [JInt n] w0 in
                      case py_iter segments of
                        Inl e \<Rightarrow> (Inl e, w1)
                      | Inr segs \<Rightarrow> final_segments_loop (websocket self) segs w1))) of
        (Inl e, w') \<Rightarrow>
          (Inr (), logger Error ''Error handling final segments: {}'' [JStr (str_exc e)] w')
      | (Inr u, w') \<Rightarrow> (Inr u, w'))"





section \<open>The Deepgram adapter: translating responses\<close>

record deepgram_provider = base_provider +
  ws_url :: string

definition deepgram_name :: string where
  "deepgram_name = ''deepgram''"

subsection \<open>\<^verbatim>\<open>Counter(speakers).most_common(1)[0][0]\<close>\<close>

text \<open>
  A \<^verbatim>\<open>Counter\<close> is a dictionary from hashable values to counts, in insertion order.
  Python compares keys with \<^verbatim>\<open>==\<close>, under which \<^verbatim>\<open>1\<close>, \<^verbatim>\<open>1.0\<close> and \<^verbatim>\<open>True\<close> are one
  key: \<open>hkey\<close> is what a value is as a key. An entry keeps the key object that was
  inserted first. Lists and dictionaries are unhashable.
\<close>

datatype hkey = HNone | HNum rat | HStr string

fun py_hash :: "json \<Rightarrow> exc + hkey" where
  "py_hash JNull = Inr HNone"
| "py_hash (JBool b) = Inr (HNum (of_bool b))"
| "py_hash (JInt i) = Inr (HNum (of_int i))"
| "py_hash (JFloat r) = Inr (HNum r)"
| "py_hash (JStr s) = Inr (HStr s)"
| "py_hash v = Inl (Exc TypeError (''unhashable type: '' @ squote (py_type_name v)))"

type_synonym counter = "(hkey \<times> json \<times> nat) list"

text \<open>\<^verbatim>\<open>mapping[elem] = mapping.get(elem, 0) + 1\<close>\<close>

fun counter_incr :: "hkey \<Rightarrow> json \<Rightarrow> counter \<Rightarrow> counter" where
  "counter_incr k v [] = [(k, v, 1)]"
| "counter_incr k v ((k', v', n) # rest) =
     (if k = k' then (k', v', Suc n) # rest else (k', v', n) # counter_incr k v rest)"

fun count_elements :: "json list \<Rightarrow> counter \<Rightarrow> exc + counter" where
  "count_elements [] c = Inr c"
| "count_elements (x # xs) c =
     then_do (py_hash x) (\<lambda>k. count_elements xs (counter_incr k x c))"

definition Counter :: "json list \<Rightarrow> exc + counter" where
  "Counter xs = count_elements xs []"

text \<open>\<^verbatim>\<open>most_common(1)\<close> is \<^verbatim>\<open>max(items, key=count)\<close>, and \<^verbatim>\<open>max\<close> keeps the first of
  several maximal items: the current best is replaced only by a strictly larger one.\<close>

fun max_first :: "hkey \<times> json \<times> nat \<Rightarrow> counter \<Rightarrow> hkey \<times> json \<times> nat" where
  "max_first best [] = best"
| "max_first best (x # xs) =
     max_first (if snd (snd x) > snd (snd best) then x else best) xs"

definition most_common_first :: "counter \<Rightarrow> exc + json" where
  "most_common_first c =
     (case c of
        [] \<Rightarrow> Inl (Exc IndexError ''list index out of range'')
      | x # xs \<Rightarrow> Inr (fst (snd (max_first x xs))))"

subsection \<open>\<^verbatim>\<open>_process_response\<close>\<close>

text \<open>\<^verbatim>\<open>[word.get("speaker") for word in words if "speaker" in word]\<close>\<close>

fun word_speakers :: "json list \<Rightarrow> exc + json list" where
  "word_speakers [] = Inr []"
| "word_speakers (word # ws) =
     then_do (py_contains ''speaker'' word) (\<lambda>tagged.
       if tagged
       then then_do (py_get word ''speaker'' JNull) (\<lambda>s.
            then_do (word_speakers ws) (\<lambda>rest. Inr (s # rest)))
       else word_speakers ws)"

text \<open>The speaker block (deepgram_provider.py 139-149): the value stored under
  \<^verbatim>\<open>"speaker"\<close>, if any.\<close>

definition utterance_speaker :: "json \<Rightarrow> exc + json option" where
  "utterance_speaker alternative =
     then_do (py_contains ''speaker'' alternative) (\<lambda>has_speaker.
       if has_speaker
       then then_do (py_getitem alternative ''speaker'') (\<lambda>s. Inr (Some s))
       else then_do (py_contains ''words'' alternative) (\<lambda>has_words.
         if \<not> has_words then Inr None
         else then_do (py_getitem alternative ''words'') (\<lambda>words.
           if \<not> py_truthy words then Inr None
           else then_do (py_iter words) (\<lambda>ws.
                then_do (word_speakers ws) (\<lambda>speakers.
                  if speakers = [] then Inr None
                  else then_do (Counter speakers) (\<lambda>c.
                       then_do (most_common_first c) (\<lambda>s. Inr (Some s))))))))"

text \<open>\<^verbatim>\<open>data.get(k, 0) * 1000 if k in data else 0\<close>\<close>

definition millis :: "json \<Rightarrow> string \<Rightarrow> exc + json" where
  "millis data k =
     then_do (py_contains k data) (\<lambda>present.
       if present then then_do (py_get data k (JInt 0)) (\<lambda>v. py_mul v 1000)
       else Inr (JInt 0))"

text \<open>The transcript event for an utterance with non-empty text (deepgram_provider.py
  121-149).\<close>

definition utterance_transcript :: "json \<Rightarrow> json \<Rightarrow> json \<Rightarrow> exc + json" where
  "utterance_transcript data alternative transcript_text =
     then_do (py_get data ''is_final'' (JBool False)) (\<lambda>is_final.
     then_do (millis data ''start'') (\<lambda>start_ms.
     then_do (millis data ''duration'') (\<lambda>duration_ms.
     then_do (py_add start_ms duration_ms) (\<lambda>end_ms.
     then_do (py_get alternative ''confidence'' (JFloat 0)) (\<lambda>confidence.
     then_do (utterance_speaker alternative) (\<lambda>sp.
       Inr (JObj [(''provider'', JStr deepgram_name),
                  (''transcript'', JObj (with_speaker sp
                     [(''text'', transcript_text), (''is_final'', is_final),
                      (''start_ms'', start_ms), (''end_ms'', end_ms),
                      (''confidence'', confidence)]))])))))))"

text \<open>What a decoded message leads to: a transcript event forwarded to the client, an
  error reported with the vendor's description, or nothing.\<close>

datatype action = Forward json | Report json | Ignore

text \<open>The branches of \<^verbatim>\<open>_process_response\<close> (deepgram_provider.py 111-165) up to the
  write on the client channel. \<^verbatim>\<open>a and b\<close> evaluates \<open>b\<close> only when \<open>a\<close> holds.\<close>

definition is_transcription_result :: "json \<Rightarrow> exc + bool" where
  "is_transcription_result data =
     then_do (py_contains ''channel'' data) (\<lambda>has_channel.
       if \<not> has_channel then Inr False
       else then_do (py_getitem data ''channel'') (\<lambda>channel.
            py_contains ''alternatives'' channel))"

definition response_action :: "json \<Rightarrow> exc + action" where
  "response_action data =
     then_do (is_transcription_result data) (\<lambda>transcription.
       if transcription
       then then_do (py_getitem data ''channel'') (\<lambda>channel.
            then_do (py_get channel ''alternatives'' (JList [])) (\<lambda>alternatives.
              if \<not> py_truthy alternatives then Inr Ignore
              else then_do (py_getitem0 alternatives) (\<lambda>alternative.
                   then_do (py_get alternative ''transcript'' (JStr [])) (\<lambda>transcript_text.
                     if \<not> py_truthy transcript_text then Inr Ignore
                     else then_do (utterance_transcript data alternative transcript_text)
                            (\<lambda>t. Inr (Forward t))))))
       else then_do (py_contains ''type'' data) (\<lambda>has_type.
         if \<not> has_type then Inr Ignore
         else then_do (py_getitem data ''type'') (\<lambda>message_type.
           if message_type = JStr ''UtteranceEnd'' then Inr Ignore
           else if message_type = JStr ''SpeechStarted'' then Inr Ignore
           else if message_type = JStr ''Error''
           then then_do (py_get data ''description'' (JStr ''Unknown error''))
                  (\<lambda>error_msg. Inr (Report error_msg))
           else Inr Ignore)))"

text \<open>A message read from the vendor channel: text that \<^verbatim>\<open>json.loads\<close> rejects (with
  the decoder's message) or the value it decodes to.\<close>

datatype wire = Undecodable string | Decoded json

fun json_loads :: "wire \<Rightarrow> exc + json" where
  "json_loads (Undecodable m) = Inl (Exc JSONDecodeError m)"
| "json_loads (Decoded v) = Inr v"

text \<open>\<^verbatim>\<open>str(v)\<close> in an f-string: a string is inserted as it is; \<open>render\<close> stands for
  the interpreter's rendering of every other value.\<close>

definition py_str :: "(json \<Rightarrow> string) \<Rightarrow> json \<Rightarrow> string" where
  "py_str render v = (case v of JStr s \<Rightarrow> s | _ \<Rightarrow> render v)"

text \<open>\<^verbatim>\<open>_process_response\<close> (deepgram_provider.py 105-171): the body of the \<^verbatim>\<open>try\<close>
  and the two handlers.\<close>

definition process_response_body ::
  "(json \<Rightarrow> string) \<Rightarrow> ws_id \<Rightarrow> wire \<Rightarrow> world \<Rightarrow> world eff" where
  "process_response_body render ws response w =
     (case then_do (json_loads response) response_action of
        Inl e \<Rightarrow> (Inl e, w)
      | Inr (Forward transcript) \<Rightarrow> send_text ws transcript w
      | Inr (Report error_msg) \<Rightarrow>
          send_error_to_client deepgram_name ws (''Deepgram error: '' @ py_str render error_msg) w
      | Inr Ignore \<Rightarrow> (Inr (), w))"

definition process_response ::
  "(json \<Rightarrow> string) \<Rightarrow> 'a deepgram_provider_scheme \<Rightarrow> wire \<Rightarrow> world \<Rightarrow> world eff" where
  "process_response render self response w =
     (case process_response_body render (websocket self) response w of
        (Inl e, w') \<Rightarrow>
          if is_exception e JSONDecodeError
          then (Inr (), logger Error ''Failed to parse Deepgram response: {}''
                          [JStr (str_exc e)] w')
          else send_error_to_client deepgram_name (websocket self)
                 (''Response processing error: '' @ str_exc e)
                 (logger Error ''Error processing Deepgram response: {}'' [JStr (str_exc e)] w')
      | (Inr u, w') \<Rightarrow> (Inr u, w'))"

section \<open>Adapter lifecycle\<close>

text \<open>
  What the vendor and the network do is the environment's choice and is an argument
  of each operation: \<open>None\<close> for a call that succeeds, \<open>Some e\<close> for one that raises
  \<open>e\<close>. Only \<^verbatim>\<open>Exception\<close>s are modelled (not task cancellation).
\<close>

text \<open>\<^verbatim>\<open>await ws.send(frame)\<close> on the vendor channel: a closed channel raises.\<close>

definition ws_send :: "exc option \<Rightarrow> frame \<Rightarrow> vendor_ws \<Rightarrow> exc + vendor_ws" where
  "ws_send fault fr ch =
     (if closed ch then Inl (Exc ConnectionClosed ''connection closed'')
      else case fault of
             Some e \<Rightarrow> Inl e
           | None \<Rightarrow> Inr (ch\<lparr>outbox := outbox ch @ [fr]\<rparr>))"

definition ws_close :: "exc option \<Rightarrow> vendor_ws \<Rightarrow> exc + vendor_ws" where
  "ws_close fault ch = (case fault of Some e \<Rightarrow> Inl e | None \<Rightarrow> Inr (ch\<lparr>closed := True\<rparr>))"

subsection \<open>Deepgram (deepgram_provider.py)\<close>

definition DeepgramProvider :: "json \<Rightarrow> json \<Rightarrow> ws_id \<Rightarrow> deepgram_provider" where
  "DeepgramProvider key cfg ws =
     \<lparr>api_key = key, config = cfg, websocket = ws, is_connected = False,
      provider_websocket = None, ws_url = ''wss://api.deepgram.com/v1/listen''\<rparr>"

text \<open>\<^verbatim>\<open>connect\<close> (22-70). The first lookup in the configuration fails when it is not a
  dictionary; after it the other lookups and the formatting of the URL cannot fail,
  and the URL is not modelled. \<open>connect_fault\<close> is the outcome of
  \<^verbatim>\<open>websockets.connect\<close>. The receive loop that \<^verbatim>\<open>connect\<close> spawns is
  \<open>listen_for_responses\<close> below.\<close>

definition deepgram_connect_body ::
  "exc option \<Rightarrow> deepgram_provider \<times> world \<Rightarrow> (deepgram_provider \<times> world) eff" where
  "deepgram_connect_body connect_fault s =
     (case s of (self, w) \<Rightarrow>
        (case py_get (config self) ''diarize'' (JBool False) of
           Inl e \<Rightarrow> (Inl e, (self, w))
         | Inr diarize_enabled \<Rightarrow>
             (case connect_fault of
                Some e \<Rightarrow> (Inl e, (self, w))
              | None \<Rightarrow>
                  (Inr (), (self\<lparr>provider_websocket := Some \<lparr>closed = False, outbox = []\<rparr>,
                                 is_connected := True\<rparr>,
                            logger Info ''Connected to Deepgram'' [] w)))))"

definition deepgram_connect ::
  "exc option \<Rightarrow> deepgram_provider \<times> world \<Rightarrow> (deepgram_provider \<times> world) eff" where
  "deepgram_connect connect_fault s =
     (case deepgram_connect_body connect_fault s of
        (Inl e, (self, w)) \<Rightarrow>
          (case send_error_to_client deepgram_name (websocket self)
                  (''Connection failed: '' @ str_exc e)
                  (logger Error ''Failed to connect to Deepgram: {}'' [JStr (str_exc e)] w) of
             (r, w') \<Rightarrow> (r, (self, w')))
      | (Inr u, s') \<Rightarrow> (Inr u, s'))"

text \<open>\<^verbatim>\<open>disconnect\<close> (72-82). \<open>send_fault\<close> and \<open>close_fault\<close> are the outcomes of
  sending the \<^verbatim>\<open>CloseStream\<close> message and of closing the channel.\<close>

definition close_stream :: frame where
  "close_stream = Text (JObj [(''type'', JStr ''CloseStream'')])"

definition deepgram_disconnect_body ::
  "exc option \<Rightarrow> exc option \<Rightarrow> deepgram_provider \<times> world \<Rightarrow> (deepgram_provider \<times> world) eff" where
  "deepgram_disconnect_body send_fault close_fault s =
     (case s of (self, w) \<Rightarrow>
        (let finish = (\<lambda>self'. (Inr (), (self'\<lparr>is_connected := False\<rparr>,
                                         logger Info ''Disconnected from Deepgram'' [] w)))
         in case provider_websocket self of
              None \<Rightarrow> finish self
            | Some ch \<Rightarrow>
                if closed ch then finish self
                else (case ws_send send_fault close_stream ch of
                        Inl e \<Rightarrow> (Inl e, (self, w))
                      | Inr ch1 \<Rightarrow>
                          (case ws_close close_fault ch1 of
                             Inl e \<Rightarrow> (Inl e, (self\<lparr>provider_websocket := Some ch1\<rparr>, w))
                           | Inr ch2 \<Rightarrow> finish (self\<lparr>provider_websocket := Some ch2\<rparr>)))))"

definition deepgram_disconnect ::
  "exc option \<Rightarrow> exc option \<Rightarrow> deepgram_provider \<times> world \<Rightarrow> (deepgram_provider \<times> world) eff" where
  "deepgram_disconnect send_fault close_fault s =
     (case deepgram_disconnect_body send_fault close_fault s of
        (Inl e, (self, w)) \<Rightarrow>
          (Inr (), (self, logger Error ''Error disconnecting from Deepgram: {}''
                            [JStr (str_exc e)] w))
      | (Inr u, s') \<Rightarrow> (Inr u, s'))"

text \<open>\<^verbatim>\<open>send_audio\<close> (84-91).\<close>

definition deepgram_send_audio_body ::
  "exc option \<Rightarrow> bytes \<Rightarrow> deepgram_provider \<times> world \<Rightarrow> (deepgram_provider \<times> world) eff" where
  "deepgram_send_audio_body send_fault audio_data s =
     (case s of (self, w) \<Rightarrow>
        (case provider_websocket self of
           None \<Rightarrow> (Inr (), (self, w))
         | Some ch \<Rightarrow>
             if is_connected self
             then (case ws_send send_fault (Binary audio_data) ch of
                     Inl e \<Rightarrow> (Inl e, (self, w))
                   | Inr ch' \<Rightarrow> (Inr (), (self\<lparr>provider_websocket := Some ch'\<rparr>, w)))
             else (Inr (), (self, w))))"

definition deepgram_send_audio ::
  "exc option \<Rightarrow> bytes \<Rightarrow> deepgram_provider \<times> world \<Rightarrow> (deepgram_provider \<times> world) eff" where
  "deepgram_send_audio send_fault audio_data s =
     (case deepgram_send_audio_body send_fault audio_data s of
        (Inl e, (self, w)) \<Rightarrow>
          (case send_error_to_client deepgram_name (websocket self)
                  (''Audio transmission error: '' @ str_exc e)
                  (logger Error ''Error sending audio to Deepgram: {}'' [JStr (str_exc e)] w) of
             (r, w') \<Rightarrow> (r, (self, w')))
      | (Inr u, s') \<Rightarrow> (Inr u, s'))"

text \<open>\<^verbatim>\<open>_listen_for_responses\<close> (93-103). The loop is driven by what \<^verbatim>\<open>recv\<close> yields, in
  order: a message, the channel closing (\<^verbatim>\<open>ConnectionClosed\<close>, after which the channel
  is closed) or another failure. When nothing more arrives the task stays suspended in
  \<^verbatim>\<open>recv\<close>: the loop ends \<open>Waiting\<close>; when its condition fails it ends \<open>Exited\<close>.\<close>

datatype received = Message wire | Closing string | Failing exc




subsection \<open>Speechmatics (speechmatics_provider.py)\<close>

definition SpeechmaticsProvider :: "json \<Rightarrow> json \<Rightarrow> ws_id \<Rightarrow> speechmatics_provider" where
  "SpeechmaticsProvider key cfg ws =
     \<lparr>api_key = key, config = cfg, websocket = ws, is_connected = False,
      provider_websocket = None, voice_client = None\<rparr>"

text \<open>\<^verbatim>\<open>v.upper()\<close> exists on strings only.\<close>

definition py_upper_check :: "json \<Rightarrow> exc + unit" where
  "py_upper_check v =
     (case v of
        JStr s \<Rightarrow> Inr ()
      | _ \<Rightarrow> Inl (Exc AttributeError
                (squote (py_type_name v) @ '' object has no attribute '' @ squote ''upper'')))"

text \<open>\<^verbatim>\<open>connect\<close> (31-121). The options are read from the configuration (the lookups
  fail when it is not a dictionary, \<^verbatim>\<open>.upper()\<close> when a mode is not a string);
  \<open>setup_fault\<close> is the outcome of the remaining set-up, which is the SDK's own
  (\<^verbatim>\<open>float\<close> conversions, \<^verbatim>\<open>VoiceAgentConfig\<close>, \<^verbatim>\<open>VoiceAgentClient\<close>), and
  \<open>connect_fault\<close> that of \<^verbatim>\<open>voice_client.connect()\<close>. Which option values the SDK
  receives is not modelled.\<close>

definition speechmatics_connect_body ::
  "exc option \<Rightarrow> exc option \<Rightarrow> speechmatics_provider \<times> world
     \<Rightarrow> (speechmatics_provider \<times> world) eff" where
  "speechmatics_connect_body setup_fault connect_fault s =
     (case s of (self, w) \<Rightarrow>
        (let w0 = logger Info ''Speechmatics config received: {}'' [config self] w in
         case then_do (py_get (config self) ''enableDiarization'' (JBool False)) (\<lambda>d.
              then_do (py_get (config self) ''endOfUtteranceMode'' (JStr ''adaptive'')) (\<lambda>m.
              then_do (py_upper_check m) (\<lambda>u.
              then_do (py_get (config self) ''operatingPoint'' (JStr ''enhanced'')) (\<lambda>p.
              then_do (py_upper_check p) (\<lambda>u.
                case setup_fault of Some e \<Rightarrow> Inl e | None \<Rightarrow> Inr ()))))) of
           Inl e \<Rightarrow> (Inl e, (self, w0))
         | Inr u \<Rightarrow>
             (let self1 = self\<lparr>voice_client := Some \<lparr>sdk_calls = []\<rparr>\<rparr> in
              case connect_fault of
                Some e \<Rightarrow> (Inl e, (self1, w0))
              | None \<Rightarrow>
                  (Inr (), (self1\<lparr>voice_client := Some \<lparr>sdk_calls = [SdkConnect]\<rparr>,
                                  is_connected := True\<rparr>,
                            logger Info ''Connected to Speechmatics Voice SDK'' [] w0)))))"

definition speechmatics_connect ::
  "exc option \<Rightarrow> exc option \<Rightarrow> speechmatics_provider \<times> world
     \<Rightarrow> (speechmatics_provider \<times> world) eff" where
  "speechmatics_connect setup_fault connect_fault s =
     (case speechmatics_connect_body setup_fault connect_fault s of
        (Inl e, (self, w)) \<Rightarrow>
          (case send_error_to_client speechmatics_name (websocket self)
                  (''Connection failed: '' @ str_exc e)
                  (logger Error ''Failed to connect to Speechmatics: {}'' [JStr (str_exc e)] w) of
             (r, w') \<Rightarrow> (r, (self, w')))
      | (Inr u, s') \<Rightarrow> (Inr u, s'))"

text \<open>A call on the SDK client: recorded when it completes.\<close>

definition sdk_call ::
  "exc option \<Rightarrow> sdk_call \<Rightarrow> voice_agent_client \<Rightarrow> exc + voice_agent_client" where
  "sdk_call fault c vc =
     (case fault of Some e \<Rightarrow> Inl e | None \<Rightarrow> Inr (vc\<lparr>sdk_calls := sdk_calls vc @ [c]\<rparr>))"

text \<open>\<^verbatim>\<open>disconnect\<close> (123-131).\<close>

definition speechmatics_disconnect_body ::
  "exc option \<Rightarrow> speechmatics_provider \<times> world \<Rightarrow> (speechmatics_provider \<times> world) eff" where
  "speechmatics_disconnect_body close_fault s =
     (case s of (self, w) \<Rightarrow>
        (let finish = (\<lambda>self'. (Inr (), (self'\<lparr>is_connected := False\<rparr>,
                                         logger Info ''Disconnected from Speechmatics'' [] w)))
         in case voice_client self of
              None \<Rightarrow> finish self
            | Some vc \<Rightarrow>
                (case sdk_call close_fault SdkClose vc of
                   Inl e \<Rightarrow> (Inl e, (self, w))
                 | Inr vc' \<Rightarrow> finish (self\<lparr>voice_client := Some vc'\<rparr>))))"

definition speechmatics_disconnect ::
  "exc option \<Rightarrow> speechmatics_provider \<times> world \<Rightarrow> (speechmatics_provider \<times> world) eff" where
  "speechmatics_disconnect close_fault s =
     (case speechmatics_disconnect_body close_fault s of
        (Inl e, (self, w)) \<Rightarrow>
          (Inr (), (self, logger Error ''Error disconnecting from Speechmatics: {}''
                            [JStr (str_exc e)] w))
      | (Inr u, s') \<Rightarrow> (Inr u, s'))"

text \<open>\<^verbatim>\<open>send_audio\<close> (133-140).\<close>

definition speechmatics_send_audio_body ::
  "exc option \<Rightarrow> bytes \<Rightarrow> speechmatics_provider \<times> world
     \<Rightarrow> (speechmatics_provider \<times> world) eff" where
  "speechmatics_send_audio_body send_fault audio_data s =
     (case s of (self, w) \<Rightarrow>
        (case voice_client self of
           None \<Rightarrow> (Inr (), (self, w))
         | Some vc \<Rightarrow>
             if is_connected self
             then (case sdk_call send_fault (SdkSendAudio audio_data) vc of
                     Inl e \<Rightarrow> (Inl e, (self, w))
                   | Inr vc' \<Rightarrow> (Inr (), (self\<lparr>voice_client := Some vc'\<rparr>, w)))
             else (Inr (), (self, w))))"

definition speechmatics_send_audio ::
  "exc option \<Rightarrow> bytes \<Rightarrow> speechmatics_provider \<times> world
     \<Rightarrow> (speechmatics_provider \<times> world) eff" where
  "speechmatics_send_audio send_fault audio_data s =
     (case speechmatics_send_audio_body send_fault audio_data s of
        (Inl e, (self, w)) \<Rightarrow>
          (case send_error_to_client speechmatics_name (websocket self)
                  (''Audio transmission error: '' @ str_exc e)
                  (logger Error ''Error sending audio to Speechmatics: {}''
                     [JStr (str_exc e)] w) of
             (r, w') \<Rightarrow> (r, (self, w')))
      | (Inr u, s') \<Rightarrow> (Inr u, s'))"

section \<open>The coordinator: \<^verbatim>\<open>ConnectionManager\<close> (main.py)\<close>

text \<open>The entry of \<^verbatim>\<open>active_connections\<close> for one client connection: an adapter or
  \<^verbatim>\<open>None\<close> per provider, and the last configuration. An adapter object lives in its
  slot; no other reference to it is modelled.\<close>

record connection_data =
  speechmatics :: "speechmatics_provider option"
  deepgram :: "deepgram_provider option"
  last_config :: "json option"

type_synonym manager = "ws_id \<rightharpoonup> connection_data"

text \<open>\<^verbatim>\<open>connect\<close> (49-55), after the transport accepted the connection.\<close>

definition manager_connect :: "ws_id \<Rightarrow> manager \<Rightarrow> manager" where
  "manager_connect ws m =
     m(ws \<mapsto> \<lparr>speechmatics = None, deepgram = None, last_config = None\<rparr>)"

text \<open>The environment's choices for one configuration message and for one tear-down.\<close>

record connect_faults =
  sm_setup_fault :: "exc option"
  sm_connect_fault :: "exc option"
  dg_connect_fault :: "exc option"

record close_faults =
  sm_close_fault :: "exc option"
  dg_send_fault :: "exc option"
  dg_close_fault :: "exc option"

definition api_key_not_provided :: "string \<Rightarrow> json" where
  "api_key_not_provided name =
     JObj [(''provider'', JStr name), (''error'', JStr ''API key not provided'')]"

text \<open>\<^verbatim>\<open>{**provider_config, "sampleRate": sample_rate}\<close>; the operand is a dictionary
  whenever this is reached.\<close>

definition with_sample_rate :: "json \<Rightarrow> json \<Rightarrow> json" where
  "with_sample_rate provider_config sample_rate =
     (case provider_config of
        JObj kvs \<Rightarrow> JObj (AList.update ''sampleRate'' sample_rate kvs)
      | _ \<Rightarrow> JObj [(''sampleRate'', sample_rate)])"

text \<open>The Speechmatics block of \<^verbatim>\<open>initialize_providers\<close> (76-93).\<close>

definition init_speechmatics ::
  "connect_faults \<Rightarrow> ws_id \<Rightarrow> json \<Rightarrow> json \<Rightarrow> connection_data \<times> world
     \<Rightarrow> (connection_data \<times> world) eff" where
  "init_speechmatics faults ws cfg sample_rate s =
     (case s of (cd, w) \<Rightarrow>
        (case py_get cfg ''speechmatics'' (JObj []) of
           Inl e \<Rightarrow> (Inl e, (cd, w))
         | Inr speechmatics_config \<Rightarrow>
             (let w0 = logger Info ''[CONFIG] Extracted Speechmatics config: {}''
                         [speechmatics_config] w in
              case py_get speechmatics_config ''apiKey'' JNull of
                Inl e \<Rightarrow> (Inl e, (cd, w0))
              | Inr key \<Rightarrow>
                  if py_truthy key
                  then (case py_getitem speechmatics_config ''apiKey'' of
                          Inl e \<Rightarrow> (Inl e, (cd, w0))
                        | Inr k \<Rightarrow>
                            (case speechmatics_connect (sm_setup_fault faults)
                                    (sm_connect_fault faults)
                                    (SpeechmaticsProvider k
                                       (with_sample_rate speechmatics_config sample_rate) ws,
                                     w0) of
                               (Inl e, (p, w')) \<Rightarrow> (Inl e, (cd, w'))
                             | (Inr u, (p, w')) \<Rightarrow>
                                 (Inr (), (cd\<lparr>speechmatics := Some p\<rparr>, w'))))
                  else (case send_text ws (api_key_not_provided ''speechmatics'') w0 of
                          (r, w') \<Rightarrow> (r, (cd, w'))))))"

text \<open>The Deepgram block (95-111).\<close>

definition init_deepgram ::
  "connect_faults \<Rightarrow> ws_id \<Rightarrow> json \<Rightarrow> json \<Rightarrow> connection_data \<times> world
     \<Rightarrow> (connection_data \<times> world) eff" where
  "init_deepgram faults ws cfg sample_rate s =
     (case s of (cd, w) \<Rightarrow>
        (case py_get cfg ''deepgram'' (JObj []) of
           Inl e \<Rightarrow> (Inl e, (cd, w))
         | Inr deepgram_config \<Rightarrow>
             (case py_get deepgram_config ''apiKey'' JNull of
                Inl e \<Rightarrow> (Inl e, (cd, w))
              | Inr key \<Rightarrow>
                  if py_truthy key
                  then (case py_getitem deepgram_config ''apiKey'' of
                          Inl e \<Rightarrow> (Inl e, (cd, w))
                        | Inr k \<Rightarrow>
                            (case deepgram_connect (dg_connect_fault faults)
                                    (DeepgramProvider k
                                       (with_sample_rate deepgram_config sample_rate) ws,
                                     w) of
                               (Inl e, (p, w')) \<Rightarrow> (Inl e, (cd, w'))
                             | (Inr u, (p, w')) \<Rightarrow>
                                 (Inr (), (cd\<lparr>deepgram := Some p\<rparr>, w'))))
                  else (case send_text ws (api_key_not_provided ''deepgram'') w of
                          (r, w') \<Rightarrow> (r, (cd, w'))))))"

text \<open>The body of the \<^verbatim>\<open>try\<close> (72-111).\<close>

definition initialize_providers_body ::
  "connect_faults \<Rightarrow> ws_id \<Rightarrow> json \<Rightarrow> connection_data \<times> world
     \<Rightarrow> (connection_data \<times> world) eff" where
  "initialize_providers_body faults ws cfg s =
     (case then_do (py_get cfg ''audio'' (JObj [])) (\<lambda>audio_config.
             py_get audio_config ''sampleRate'' (JInt 16000)) of
        Inl e \<Rightarrow> (Inl e, s)
      | Inr sample_rate \<Rightarrow>
          (case init_speechmatics faults ws cfg sample_rate s of
             (Inl e, s1) \<Rightarrow> (Inl e, s1)
           | (Inr u, s1) \<Rightarrow> init_deepgram faults ws cfg sample_rate s1))"

text \<open>\<^verbatim>\<open>initialize_providers\<close> (66-117). The lookup of the connection's entry is outside
  the \<^verbatim>\<open>try\<close>; the write in the \<^verbatim>\<open>except\<close> block is not protected either.\<close>

definition initialize_providers ::
  "connect_faults \<Rightarrow> ws_id \<Rightarrow> json \<Rightarrow> manager \<times> world \<Rightarrow> (manager \<times> world) eff" where
  "initialize_providers faults ws cfg s =
     (case s of (m, w) \<Rightarrow>
        (case m ws of
           None \<Rightarrow> (Inl (Exc KeyError ''websocket''), (m, w))
         | Some cd0 \<Rightarrow>
             (case initialize_providers_body faults ws cfg
                     (cd0\<lparr>last_config := Some cfg\<rparr>, w) of
                (Inl e, (cd, w')) \<Rightarrow>
                  (case send_text ws
                          (JObj [(''error'',
                                  JStr (''Failed to initialize providers: '' @ str_exc e))])
                          (logger Error ''Error initializing providers: {}''
                             [JStr (str_exc e)] w') of
                     (r, w'') \<Rightarrow> (r, (m(ws \<mapsto> cd), w'')))
              | (Inr u, (cd, w')) \<Rightarrow> (Inr (), (m(ws \<mapsto> cd), w')))))"

text \<open>\<^verbatim>\<open>send_audio_to_providers\<close> (119-130). The sends are gathered with
  \<^verbatim>\<open>return_exceptions=True\<close>: an exception of one send is a result, not a failure of
  the fan-out. The two sends are run one after the other here, Speechmatics first,
  as they are created.\<close>

definition send_audio_to_providers ::
  "exc option \<Rightarrow> exc option \<Rightarrow> ws_id \<Rightarrow> bytes \<Rightarrow> manager \<times> world \<Rightarrow> (manager \<times> world) eff" where
  "send_audio_to_providers sm_fault dg_fault ws audio_data s =
     (case s of (m, w) \<Rightarrow>
        (case m ws of
           None \<Rightarrow> (Inr (), (m, w))
         | Some cd \<Rightarrow>
             (let (cd1, w1) =
                    (case speechmatics cd of
                       None \<Rightarrow> (cd, w)
                     | Some p \<Rightarrow>
                         (case speechmatics_send_audio sm_fault audio_data (p, w) of
                            (r, (p', w')) \<Rightarrow> (cd\<lparr>speechmatics := Some p'\<rparr>, w')));
                  (cd2, w2) =
                    (case deepgram cd1 of
                       None \<Rightarrow> (cd1, w1)
                     | Some p \<Rightarrow>
                         (case deepgram_send_audio dg_fault audio_data (p, w1) of
                            (r, (p', w')) \<Rightarrow> (cd1\<lparr>deepgram := Some p'\<rparr>, w')))
              in (Inr (), (m(ws \<mapsto> cd2), w2)))))"

text \<open>\<^verbatim>\<open>stop_providers\<close> (132-140): each adapter in a slot is disconnected and its slot
  cleared; nothing catches an exception of \<^verbatim>\<open>disconnect\<close> here.\<close>

definition stop_providers ::
  "close_faults \<Rightarrow> ws_id \<Rightarrow> manager \<times> world \<Rightarrow> (manager \<times> world) eff" where
  "stop_providers faults ws s =
     (case s of (m, w) \<Rightarrow>
        (case m ws of
           None \<Rightarrow> (Inr (), (m, w))
         | Some cd \<Rightarrow>
             (case (case speechmatics cd of
                      None \<Rightarrow> (Inr (), (cd, w))
                    | Some p \<Rightarrow>
                        (case speechmatics_disconnect (sm_close_fault faults) (p, w) of
                           (Inl e, (p', w')) \<Rightarrow> (Inl e, (cd\<lparr>speechmatics := Some p'\<rparr>, w'))
                         | (Inr u, (p', w')) \<Rightarrow> (Inr (), (cd\<lparr>speechmatics := None\<rparr>, w')))) of
                (Inl e, (cd1, w1)) \<Rightarrow> (Inl e, (m(ws \<mapsto> cd1), w1))
              | (Inr u, (cd1, w1)) \<Rightarrow>
                  (case deepgram cd1 of
                     None \<Rightarrow> (Inr (), (m(ws \<mapsto> cd1), w1))
                   | Some p \<Rightarrow>
                       (case deepgram_disconnect (dg_send_fault faults) (dg_close_fault faults)
                               (p, w1) of
                          (Inl e, (p', w')) \<Rightarrow>
                            (Inl e, (m(ws \<mapsto> cd1\<lparr>deepgram := Some p'\<rparr>), w'))
                        | (Inr u, (p', w')) \<Rightarrow>
                            (Inr (), (m(ws \<mapsto> cd1\<lparr>deepgram := None\<rparr>), w')))))))"


section \<open>Observations used in the statements\<close>

text \<open>A field of the \<^verbatim>\<open>"transcript"\<close> object of a frame; \<open>None\<close> when the frame has no such
  object or the object has no such field.\<close>

definition transcript_field :: "string \<Rightarrow> json \<Rightarrow> json option" where
  "transcript_field k fr =
     (case fr of
        JObj kvs \<Rightarrow> (case map_of kvs ''transcript'' of
                      Some (JObj inner) \<Rightarrow> map_of inner k
                    | _ \<Rightarrow> None)
      | _ \<Rightarrow> None)"

text \<open>A state to run examples from: every client channel accepts writes and is empty,
  nothing is logged.\<close>

definition quiet_world :: world where
  "quiet_world = \<lparr>clients = (\<lambda>ws. \<lparr>chan_fault = None, chan_out = []\<rparr>), logged = []\<rparr>"



text \<open>Example inputs.\<close>

definition hinted_partial_message :: json where
  "hinted_partial_message =
     JObj [(''segments'', JList [JObj [(''text'', JStr ''hel''), (''start_time'', JFloat 2),
             (''end_time'', JFloat (11 / 4)), (''has_final'', JBool True)]])]"

definition utterance_fields :: "(string \<times> json) list" where
  "utterance_fields =
     [(''channel'', JObj [(''alternatives'', JList [JObj [(''transcript'', JStr ''hello'')]])]),
      (''is_final'', JBool True), (''start'', JFloat 1), (''duration'', JFloat (1 / 2))]"

definition utterance_message :: json where
  "utterance_message = JObj utterance_fields"

definition utterance_event :: json where
  "utterance_event =
     JObj [(''provider'', JStr ''deepgram''),
           (''transcript'', JObj [(''text'', JStr ''hello''), (''is_final'', JBool True),
              (''start_ms'', JFloat 1000), (''end_ms'', JFloat 1500),
              (''confidence'', JFloat 0)])]"

definition timed_segment_fields :: "(string \<times> json) list" where
  "timed_segment_fields =
     [(''text'', JStr ''hello''), (''start_time'', JFloat 2), (''end_time'', JFloat (11 / 4))]"

definition timed_segment :: json where
  "timed_segment = JObj timed_segment_fields"

definition timed_segment_event :: json where
  "timed_segment_event =
     JObj [(''provider'', JStr ''speechmatics''),
           (''transcript'', JObj [(''text'', JStr ''hello''), (''is_final'', JBool True),
              (''start_ms'', JFloat 2000), (''end_ms'', JFloat 2750),
              (''confidence'', JFloat 0)])]"

definition no_render :: "json \<Rightarrow> string" where
  "no_render v = []"

text \<open>The alternative a Deepgram message is translated from:
  \<^verbatim>\<open>data["channel"].get("alternatives", [])[0]\<close>.\<close>

definition first_alternative :: "json \<Rightarrow> json option" where
  "first_alternative data =
     (case then_do (py_getitem data ''channel'') (\<lambda>channel.
           then_do (py_get channel ''alternatives'' (JList [])) py_getitem0) of
        Inr alternative \<Rightarrow> Some alternative
      | Inl e \<Rightarrow> None)"

definition named_speaker_message :: json where
  "named_speaker_message =
     JObj [(''segments'', JList [JObj [(''text'', JStr ''hello''), (''speaker_id'', JStr ''Sam'')],
                                 JObj [(''text'', JStr ''world''), (''speaker_id'', JStr ''S1'')]])]"




definition refused :: exc where
  "refused = Exc OtherError ''refused''"


definition fresh_speechmatics :: speechmatics_provider where
  "fresh_speechmatics = SpeechmaticsProvider (JStr ''k'') (JObj []) 0"



definition no_close_faults :: close_faults where
  "no_close_faults = \<lparr>sm_close_fault = None, dg_send_fault = None, dg_close_fault = None\<rparr>"

text \<open>A configuration as the client is to send it: an object whose \<^verbatim>\<open>audio\<close>,
  \<^verbatim>\<open>speechmatics\<close> and \<^verbatim>\<open>deepgram\<close> entries, when present, are objects.\<close>

definition object_or_absent :: "(string \<times> json) list \<Rightarrow> string \<Rightarrow> bool" where
  "object_or_absent kvs k =
     (case map_of kvs k of None \<Rightarrow> True | Some (JObj entry) \<Rightarrow> True | Some _ \<Rightarrow> False)"

definition well_formed_config :: "json \<Rightarrow> bool" where
  "well_formed_config cfg =
     (case cfg of
        JObj kvs \<Rightarrow> object_or_absent kvs ''audio'' \<and> object_or_absent kvs ''speechmatics'' \<and>
                    object_or_absent kvs ''deepgram''
      | _ \<Rightarrow> False)"

text \<open>The entry of a provider in a configuration (empty when absent), the shared sample
  rate, and whether the entry carries a non-empty \<^verbatim>\<open>apiKey\<close>.\<close>

definition provider_entry :: "json \<Rightarrow> string \<Rightarrow> (string \<times> json) list" where
  "provider_entry cfg name =
     (case cfg of
        JObj kvs \<Rightarrow> (case map_of kvs name of Some (JObj entry) \<Rightarrow> entry | _ \<Rightarrow> [])
      | _ \<Rightarrow> [])"

definition config_sample_rate :: "json \<Rightarrow> json" where
  "config_sample_rate cfg =
     (case map_of (provider_entry cfg ''audio'') ''sampleRate'' of
        None \<Rightarrow> JInt 16000 | Some r \<Rightarrow> r)"

definition has_api_key :: "json \<Rightarrow> string \<Rightarrow> bool" where
  "has_api_key cfg name =
     (case map_of (provider_entry cfg name) ''apiKey'' of None \<Rightarrow> False | Some k \<Rightarrow> py_truthy k)"

definition entry_api_key :: "json \<Rightarrow> string \<Rightarrow> json" where
  "entry_api_key cfg name =
     (case map_of (provider_entry cfg name) ''apiKey'' of None \<Rightarrow> JNull | Some k \<Rightarrow> k)"

text \<open>The adapter objects \<^verbatim>\<open>initialize_providers\<close> constructs for a configuration.\<close>

definition new_speechmatics :: "json \<Rightarrow> ws_id \<Rightarrow> speechmatics_provider" where
  "new_speechmatics cfg ws =
     SpeechmaticsProvider (entry_api_key cfg ''speechmatics'')
       (JObj (AList.update ''sampleRate'' (config_sample_rate cfg)
                (provider_entry cfg ''speechmatics''))) ws"

definition new_deepgram :: "json \<Rightarrow> ws_id \<Rightarrow> deepgram_provider" where
  "new_deepgram cfg ws =
     DeepgramProvider (entry_api_key cfg ''deepgram'')
       (JObj (AList.update ''sampleRate'' (config_sample_rate cfg)
                (provider_entry cfg ''deepgram''))) ws"

definition deepgram_only_config :: json where
  "deepgram_only_config =
     JObj [(''audio'', JObj [(''sampleRate'', JInt 16000)]),
           (''deepgram'', JObj [(''apiKey'', JStr ''k'')])]"


definition deepgram_refuses :: connect_faults where
  "deepgram_refuses =
     \<lparr>sm_setup_fault = None, sm_connect_fault = None, dg_connect_fault = Some refused\<rparr>"

definition one_session :: manager where
  "one_session = manager_connect 0 Map.empty"

definition speechmatics_only_config :: json where
  "speechmatics_only_config = JObj [(''speechmatics'', JObj [(''apiKey'', JStr ''k'')])]"

definition speechmatics_refuses :: connect_faults where
  "speechmatics_refuses =
     \<lparr>sm_setup_fault = None, sm_connect_fault = Some refused, dg_connect_fault = None\<rparr>"

definition empty_session :: connection_data where
  "empty_session = \<lparr>speechmatics = None, deepgram = None, last_config = None\<rparr>"

definition failed_deepgram_session :: connection_data where
  "failed_deepgram_session =
     \<lparr>speechmatics = None, deepgram = Some (new_deepgram deepgram_only_config 0),
      last_config = Some deepgram_only_config\<rparr>"

definition failed_speechmatics :: speechmatics_provider where
  "failed_speechmatics =
     (new_speechmatics speechmatics_only_config 0)\<lparr>voice_client := Some \<lparr>sdk_calls = []\<rparr>\<rparr>"

definition failed_speechmatics_session :: connection_data where
  "failed_speechmatics_session =
     \<lparr>speechmatics = Some failed_speechmatics, deepgram = None,
      last_config = Some speechmatics_only_config\<rparr>"

text \<open>How often a speaker occurs in a list of speaker tags, equal tags being those
  Python's \<^verbatim>\<open>==\<close> identifies.\<close>

definition occurrences :: "json \<Rightarrow> json list \<Rightarrow> nat" where
  "occurrences s xs = length (filter (\<lambda>x. py_hash x = py_hash s) xs)"

text \<open>The word-level speaker tags of an alternative, in the order of its words; none
  when it has no (non-empty) \<^verbatim>\<open>words\<close>.\<close>

definition word_speaker_tags :: "(string \<times> json) list \<Rightarrow> json list" where
  "word_speaker_tags alt =
     (case map_of alt ''words'' of
        None \<Rightarrow> []
      | Some words \<Rightarrow>
          if py_truthy words
          then (case then_do (py_iter words) word_speakers of Inr tags \<Rightarrow> tags | Inl e \<Rightarrow> [])
          else [])"

definition diarized_alternative :: "(string \<times> json) list" where
  "diarized_alternative =
     [(''transcript'', JStr ''hello there you''),
      (''words'', JList [JObj [(''word'', JStr ''hello''), (''speaker'', JInt 1)],
                         JObj [(''word'', JStr ''there''), (''speaker'', JInt 1)],
                         JObj [(''word'', JStr ''you''), (''speaker'', JInt 2)]])]"

definition diarized_message :: json where
  "diarized_message =
     JObj [(''channel'', JObj [(''alternatives'', JList [JObj diarized_alternative])]),
           (''is_final'', JBool True)]"

definition diarized_event :: json where
  "diarized_event =
     JObj [(''provider'', JStr ''deepgram''),
           (''transcript'', JObj [(''text'', JStr ''hello there you''), (''is_final'', JBool True),
              (''start_ms'', JInt 0), (''end_ms'', JInt 0), (''confidence'', JFloat 0),
              (''speaker'', JInt 1)])]"

section \<open>Properties\<close>

subsection \<open>Shared facts\<close>

lemma then_do_Inr_iff: "then_do m f = Inr y \<longleftrightarrow> (\<exists>x. m = Inr x \<and> f x = Inr y)"
  by (cases m) auto

lemma clients_logger [simp]: "clients (logger lvl msg args w) = clients w"
  by (simp add: logger_def)

lemma send_text_Inr:
  "send_text ws v w = (Inr u, w') \<Longrightarrow>
     chan_out (clients w' ws) = chan_out (clients w ws) @ [v] \<and>
     chan_fault (clients w' ws) = chan_fault (clients w ws) \<and>
     (\<forall>ws'. ws' \<noteq> ws \<longrightarrow> clients w' ws' = clients w ws') \<and> logged w' = logged w"
  by (auto simp: send_text_def split: option.splits)

lemma send_text_Inl:
  "send_text ws v w = (Inl e, w') \<Longrightarrow> w' = w \<and> chan_fault (clients w ws) = Some e"
  by (auto simp: send_text_def split: option.splits)

lemma new_frames_append:
  "chan_out (clients w' ws) = chan_out (clients w ws) @ fs \<Longrightarrow> new_frames ws w w' = fs"
  by (simp add: new_frames_def)

lemma map_of_with_speaker:
  "k \<noteq> ''speaker'' \<Longrightarrow> map_of (with_speaker sp d) k = map_of d k"
  by (cases sp) (simp_all add: with_speaker_def update_conv')

subsection \<open>Speechmatics partial segments\<close>

lemma partial_transcript_is_final:
  "partial_transcript segment = Inr t \<Longrightarrow> transcript_field ''is_final'' t = Some (JBool False)"
  by (auto simp: partial_transcript_def then_do_Inr_iff transcript_field_def map_of_with_speaker)

text \<open>The frames written by the loop are the events of a prefix of the segments.\<close>

lemma partial_segments_loop_frames:
  "partial_segments_loop ws segs w = (r, w') \<Longrightarrow>
     \<exists>fs. chan_out (clients w' ws) = chan_out (clients w ws) @ fs \<and>
          (\<forall>f\<in>set fs. \<exists>seg\<in>set segs. partial_transcript seg = Inr f)"
proof (induction segs arbitrary: w)
  case Nil
  then show ?case by simp
next
  case (Cons seg segs)
  show ?case
  proof (cases "partial_transcript seg")
    case (Inl e)
    with Cons.prems show ?thesis by simp
  next
    case built: (Inr t)
    obtain r1 w1 where s: "send_text ws t w = (r1, w1)" by (cases "send_text ws t w")
    show ?thesis
    proof (cases r1)
      case (Inl e)
      with Cons.prems built s send_text_Inl[of ws t w e w1] show ?thesis by simp
    next
      case (Inr u)
      with Cons.prems built s have "partial_segments_loop ws segs w1 = (r, w')" by simp
      from Cons.IH[OF this] obtain fs where
        fs: "chan_out (clients w' ws) = chan_out (clients w1 ws) @ fs"
            "\<forall>f\<in>set fs. \<exists>seg\<in>set segs. partial_transcript seg = Inr f" by blast
      from s Inr have "chan_out (clients w1 ws) = chan_out (clients w ws) @ [t]"
        using send_text_Inr by blast
      with fs built
      have "chan_out (clients w' ws) = chan_out (clients w ws) @ (t # fs) \<and>
            (\<forall>f\<in>set (t # fs). \<exists>s\<in>set (seg # segs). partial_transcript s = Inr f)" by auto
      then show ?thesis by blast
    qed
  qed
qed

lemma handle_partial_segments_frames:
  assumes "handle_partial_segments self message w = (r, w')"
  shows "\<exists>fs. chan_out (clients w' (websocket self)) = chan_out (clients w (websocket self)) @ fs \<and>
          (\<forall>f\<in>set fs. \<exists>seg. partial_transcript seg = Inr f)"
proof (cases "then_do (py_getitem message ''segments'') py_iter")
  case (Inl e)
  with assms show ?thesis by (auto simp: handle_partial_segments_def)
next
  case (Inr segs)
  let ?ws = "websocket self"
  obtain r1 w1 where l: "partial_segments_loop ?ws segs w = (r1, w1)"
    by (cases "partial_segments_loop ?ws segs w")
  from partial_segments_loop_frames[OF l] obtain fs where
    fs: "chan_out (clients w1 ?ws) = chan_out (clients w ?ws) @ fs"
        "\<forall>f\<in>set fs. \<exists>seg\<in>set segs. partial_transcript seg = Inr f" by blast
  from assms Inr l have "clients w' = clients w1"
    by (cases r1) (auto simp: handle_partial_segments_def)
  with fs show ?thesis by auto
qed

text \<open>
  C4. Every frame that \<^verbatim>\<open>_handle_partial_segments\<close> writes to the client, for any
  message and from any state, is a transcript event whose \<^verbatim>\<open>is_final\<close> is \<^verbatim>\<open>false\<close>;
  the handler never reads a finalization hint of the segment. The client channel only
  grows by these frames.
\<close>

theorem partial_segments_never_final:
  assumes "handle_partial_segments self message w = (r, w')"
  shows "chan_out (clients w' (websocket self)) =
           chan_out (clients w (websocket self)) @ new_frames (websocket self) w w' \<and>
         (\<forall>f \<in> set (new_frames (websocket self) w w').
            transcript_field ''is_final'' f = Some (JBool False))"
proof -
  from handle_partial_segments_frames[OF assms] obtain fs where
    fs: "chan_out (clients w' (websocket self)) = chan_out (clients w (websocket self)) @ fs"
        "\<forall>f\<in>set fs. \<exists>seg. partial_transcript seg = Inr f" by blast
  from fs(2) have "\<forall>f\<in>set fs. transcript_field ''is_final'' f = Some (JBool False)"
    using partial_transcript_is_final by blast
  with new_frames_append[OF fs(1)] fs(1) show ?thesis by simp
qed

text \<open>A partial-segment message whose segment carries a \<^verbatim>\<open>has_final\<close> hint: the one
  frame written has \<^verbatim>\<open>is_final\<close> false.\<close>

theorem partial_segments_never_final_witness:
  "new_frames 0 quiet_world
     (snd (handle_partial_segments (SpeechmaticsProvider (JStr ''k'') (JObj []) 0)
             hinted_partial_message quiet_world)) =
     [JObj [(''provider'', JStr ''speechmatics''),
            (''transcript'', JObj [(''text'', JStr ''hel''), (''is_final'', JBool False),
               (''start_ms'', JFloat 2000), (''end_ms'', JFloat 2750)])]] \<and>
   transcript_field ''is_final''
     (JObj [(''provider'', JStr ''speechmatics''),
            (''transcript'', JObj [(''text'', JStr ''hel''), (''is_final'', JBool False),
               (''start_ms'', JFloat 2000), (''end_ms'', JFloat 2750)])]) = Some (JBool False)"
  using partial_segments_never_final[of "SpeechmaticsProvider (JStr ''k'') (JObj []) 0"
          hinted_partial_message quiet_world]
  by (simp add: handle_partial_segments_def SpeechmaticsProvider_def quiet_world_def
        hinted_partial_message_def partial_transcript_def segment_speaker_def with_speaker_def
        send_text_def new_frames_def logger_def speechmatics_name_def transcript_field_def)

subsection \<open>Timing\<close>




lemma transcript_field_built:
  "k \<noteq> ''speaker'' \<Longrightarrow>
   transcript_field k (JObj [(''provider'', p), (''transcript'', JObj (with_speaker sp d))]) =
     map_of d k"
  by (simp add: transcript_field_def map_of_with_speaker)


text \<open>What a forwarded transcript was built from.\<close>

lemma response_action_Forward:
  assumes "response_action data = Inr (Forward f)"
  shows "\<exists>channel alternatives alternative text.
           py_getitem data ''channel'' = Inr channel \<and>
           py_get channel ''alternatives'' (JList []) = Inr alternatives \<and>
           py_getitem0 alternatives = Inr alternative \<and>
           py_get alternative ''transcript'' (JStr []) = Inr text \<and> py_truthy text \<and>
           utterance_transcript data alternative text = Inr f"
  using assms
  by (auto simp: response_action_def then_do_Inr_iff split: if_splits)






subsection \<open>What the handlers write\<close>

lemma clients_log_added_speaker [simp]:
  "clients (log_added_speaker segment transcript w) = clients w"
  by (simp add: log_added_speaker_def split: sum.splits json.splits)

text \<open>The frames written for a final-segment message are the events of its segments.\<close>

lemma final_segments_loop_frames:
  "final_segments_loop ws segs w = (r, w') \<Longrightarrow>
     \<exists>fs. chan_out (clients w' ws) = chan_out (clients w ws) @ fs \<and>
          (\<forall>f\<in>set fs. \<exists>seg\<in>set segs. final_transcript seg = Inr f)"
proof (induction segs arbitrary: w)
  case Nil
  then show ?case by simp
next
  case (Cons seg segs)
  let ?w1 = "logger Info ''Final segment data: {}'' [seg] w"
  show ?case
  proof (cases "final_transcript seg")
    case (Inl e)
    with Cons.prems show ?thesis by (auto simp: Let_def)
  next
    case built: (Inr t)
    let ?w2 = "log_added_speaker seg t ?w1"
    obtain r1 w3 where s: "send_text ws t ?w2 = (r1, w3)" by (cases "send_text ws t ?w2")
    show ?thesis
    proof (cases r1)
      case (Inl e)
      with Cons.prems built s send_text_Inl[of ws t ?w2 e w3] show ?thesis
        by (auto simp: Let_def)
    next
      case (Inr u)
      with Cons.prems built s have
        "final_segments_loop ws segs (logger Info ''Sent final transcript: {}'' [t] w3) = (r, w')"
        by (simp add: Let_def)
      from Cons.IH[OF this] obtain fs where
        fs: "chan_out (clients w' ws) = chan_out (clients w3 ws) @ fs"
            "\<forall>f\<in>set fs. \<exists>seg\<in>set segs. final_transcript seg = Inr f" by auto
      from s Inr have "chan_out (clients w3 ws) = chan_out (clients w ws) @ [t]"
        using send_text_Inr[of ws t ?w2 u w3] by simp
      with fs built
      have "chan_out (clients w' ws) = chan_out (clients w ws) @ (t # fs) \<and>
            (\<forall>f\<in>set (t # fs). \<exists>s\<in>set (seg # segs). final_transcript s = Inr f)" by auto
      then show ?thesis by blast
    qed
  qed
qed

text \<open>What \<^verbatim>\<open>_process_response\<close> writes: nothing, the transcript event of the message,
  or one error event attributed to Deepgram.\<close>

lemma send_result_to_client_frames:
  "send_result_to_client name ws result w = (r, w') \<Longrightarrow>
     r = Inr () \<and>
     chan_out (clients w' ws) = chan_out (clients w ws) @
       (if chan_fault (clients w ws) = None
        then [JObj (AList.update ''provider'' (JStr name) result)] else [])"
  by (auto simp: send_result_to_client_def send_text_def split: option.splits)

lemma send_error_to_client_frames:
  "send_error_to_client name ws msg w = (r, w') \<Longrightarrow>
     r = Inr () \<and>
     chan_out (clients w' ws) = chan_out (clients w ws) @
       (if chan_fault (clients w ws) = None then [error_event name msg] else [])"
  by (auto simp: send_error_to_client_def error_event_def dest!: send_result_to_client_frames)

lemma send_error_to_client_others:
  "send_error_to_client name ws msg w = (r, w') \<Longrightarrow>
     chan_fault (clients w' ws) = chan_fault (clients w ws) \<and>
     (\<forall>ws'. ws' \<noteq> ws \<longrightarrow> clients w' ws' = clients w ws')"
  by (auto simp: send_error_to_client_def send_result_to_client_def send_text_def
           split: option.splits)


subsection \<open>Confidence\<close>

lemma response_action_first_alternative:
  assumes "response_action data = Inr (Forward f)"
  shows "\<exists>alt. first_alternative data = Some (JObj alt) \<and>
           (\<exists>transcript_text. utterance_transcript data (JObj alt) transcript_text = Inr f)"
proof -
  from response_action_Forward[OF assms] obtain channel alternatives alternative tt where
    h: "py_getitem data ''channel'' = Inr channel"
       "py_get channel ''alternatives'' (JList []) = Inr alternatives"
       "py_getitem0 alternatives = Inr alternative"
       "py_get alternative ''transcript'' (JStr []) = Inr tt"
       "utterance_transcript data alternative tt = Inr f" by blast
  from h(4) obtain alt where "alternative = JObj alt" by (cases alternative) auto
  with h show ?thesis by (auto simp: first_alternative_def)
qed

lemma utterance_transcript_confidence:
  "utterance_transcript data (JObj alt) transcript_text = Inr f \<Longrightarrow>
     transcript_field ''confidence'' f =
       Some (case map_of alt ''confidence'' of None \<Rightarrow> JFloat 0 | Some c \<Rightarrow> c)"
  by (auto simp: utterance_transcript_def then_do_Inr_iff transcript_field_built)

lemma final_transcript_confidence:
  "final_transcript (JObj seg) = Inr g \<Longrightarrow>
     transcript_field ''confidence'' g =
       Some (case map_of seg ''confidence'' of None \<Rightarrow> JFloat 0 | Some c \<Rightarrow> c)"
  by (auto simp: final_transcript_def then_do_Inr_iff transcript_field_built)

lemma partial_transcript_confidence:
  "partial_transcript seg = Inr h \<Longrightarrow> transcript_field ''confidence'' h = None"
  by (auto simp: partial_transcript_def then_do_Inr_iff transcript_field_built)

text \<open>
  C8, as the code has it. The transcript event of a Deepgram message and the event of a
  Speechmatics final segment always carry a \<^verbatim>\<open>confidence\<close> field: the vendor's value
  when the alternative (the segment) has one, and 0.0 when it has none. The event of a
  Speechmatics partial segment never carries a \<^verbatim>\<open>confidence\<close> field.
\<close>

theorem confidence_defaults_to_zero:
  "(response_action data = Inr (Forward f) \<longrightarrow>
      (\<exists>alt. first_alternative data = Some (JObj alt) \<and>
         transcript_field ''confidence'' f =
           Some (case map_of alt ''confidence'' of None \<Rightarrow> JFloat 0 | Some c \<Rightarrow> c))) \<and>
   (final_transcript (JObj seg) = Inr g \<longrightarrow>
      transcript_field ''confidence'' g =
        Some (case map_of seg ''confidence'' of None \<Rightarrow> JFloat 0 | Some c \<Rightarrow> c)) \<and>
   (partial_transcript seg' = Inr h \<longrightarrow> transcript_field ''confidence'' h = None)"
  using response_action_first_alternative utterance_transcript_confidence
    final_transcript_confidence partial_transcript_confidence
  by blast

theorem confidence_defaults_to_zero_witness:
  "response_action utterance_message = Inr (Forward utterance_event) \<and>
   first_alternative utterance_message = Some (JObj [(''transcript'', JStr ''hello'')]) \<and>
   transcript_field ''confidence'' utterance_event = Some (JFloat 0) \<and>
   final_transcript (JObj timed_segment_fields) = Inr timed_segment_event \<and>
   transcript_field ''confidence'' timed_segment_event = Some (JFloat 0) \<and>
   partial_transcript timed_segment =
     Inr (JObj [(''provider'', JStr ''speechmatics''),
                (''transcript'', JObj [(''text'', JStr ''hello''), (''is_final'', JBool False),
                   (''start_ms'', JFloat 2000), (''end_ms'', JFloat 2750)])])"
  using confidence_defaults_to_zero[where data = utterance_message and f = utterance_event
          and seg = timed_segment_fields and g = timed_segment_event and seg' = timed_segment]
  by (simp add: utterance_message_def utterance_fields_def utterance_event_def
        timed_segment_def timed_segment_fields_def timed_segment_event_def
        first_alternative_def response_action_def transcript_field_def
        is_transcription_result_def utterance_transcript_def final_transcript_def
        partial_transcript_def segment_speaker_def millis_def py_add_def utterance_speaker_def
        with_speaker_def deepgram_name_def speechmatics_name_def)

text \<open>The claim as written fails: a Deepgram message whose alternative has no
  \<^verbatim>\<open>confidence\<close> is forwarded with \<^verbatim>\<open>confidence\<close> 0.0.\<close>

theorem confidence_omitted_counterexample:
  "first_alternative utterance_message = Some (JObj [(''transcript'', JStr ''hello'')]) \<and>
   new_frames 0 quiet_world
     (snd (process_response no_render (DeepgramProvider (JStr ''k'') (JObj []) 0)
             (Decoded utterance_message) quiet_world)) = [utterance_event] \<and>
   transcript_field ''confidence'' utterance_event = Some (JFloat 0)"
  by (simp add: utterance_message_def utterance_fields_def utterance_event_def
        first_alternative_def process_response_def process_response_body_def
        response_action_def transcript_field_def is_transcription_result_def
        utterance_transcript_def millis_def py_add_def utterance_speaker_def with_speaker_def
        deepgram_name_def DeepgramProvider_def quiet_world_def send_text_def new_frames_def)

subsection \<open>Speechmatics speaker tokens\<close>

lemma digit_cases:
  assumes "c \<in> set ''0123456789''"
  obtains "c = CHR ''0''" | "c = CHR ''1''" | "c = CHR ''2''" | "c = CHR ''3''" | "c = CHR ''4''"
    | "c = CHR ''5''" | "c = CHR ''6''" | "c = CHR ''7''" | "c = CHR ''8''" | "c = CHR ''9''"
  using assms by auto

lemma py_int_digit:
  assumes "c \<in> set ''0123456789''"
  shows "py_int [c] = Inr (digit_val c)"
  using assms
  by (rule digit_cases)
     (simp_all add: py_int_def strip_def is_space_def is_digit_def digit_val_def)

text \<open>The part of C5 that holds: \<^verbatim>\<open>S\<close> followed by the digit \<open>d\<close> becomes \<open>d - 1\<close>, and a
  value that is not a string starting with \<^verbatim>\<open>S\<close> (and is not \<^verbatim>\<open>None\<close>) is passed through.\<close>

lemma segment_speaker_S_digit:
  assumes "map_of seg ''speaker_id'' = Some (JStr [CHR ''S'', c])" and "c \<in> set ''0123456789''"
  shows "segment_speaker (JObj seg) = Inr (Some (JInt (digit_val c - 1)))"
  using assms(1) py_int_digit[OF assms(2)] by (simp add: segment_speaker_def)

lemma segment_speaker_passthrough:
  assumes "map_of seg ''speaker_id'' = Some v" and "v \<noteq> JNull"
    and "\<forall>s. v = JStr s \<longrightarrow> \<not> startswith s ''S''"
  shows "segment_speaker (JObj seg) = Inr (Some v)"
  using assms by (cases v) (simp_all add: segment_speaker_def)

lemma py_int_am: "py_int ''am'' = Inl (invalid_literal ''am'')"
  by (simp add: py_int_def strip_def is_space_def is_digit_def)

lemma segment_speaker_Sam:
  "segment_speaker (JObj [(''text'', JStr ''hello''), (''speaker_id'', JStr ''Sam'')]) =
     Inl (invalid_literal ''am'')"
  by (simp add: segment_speaker_def py_int_am)

text \<open>
  C5, where the code departs from it. The speaker value \<^verbatim>\<open>"Sam"\<close> does not have the form
  \<^verbatim>\<open>S<digit>\<close>, yet it starts with \<^verbatim>\<open>S\<close>, so the handler calls \<^verbatim>\<open>int("am")\<close>, which
  raises \<^verbatim>\<open>ValueError\<close>. The handler's \<^verbatim>\<open>except\<close> ends the whole message: no event is
  written for this segment, and none for the well-formed segment after it. Both segment
  handlers behave so.
\<close>

theorem named_speaker_aborts_handler:
  "segment_speaker (JObj [(''text'', JStr ''hello''), (''speaker_id'', JStr ''Sam'')]) =
     Inl (invalid_literal ''am'') \<and>
   new_frames 0 quiet_world
     (snd (handle_final_segments (SpeechmaticsProvider (JStr ''k'') (JObj []) 0)
             named_speaker_message quiet_world)) = [] \<and>
   new_frames 0 quiet_world
     (snd (handle_partial_segments (SpeechmaticsProvider (JStr ''k'') (JObj []) 0)
             named_speaker_message quiet_world)) = []"
  by (simp add: named_speaker_message_def handle_final_segments_def handle_partial_segments_def
        final_transcript_def partial_transcript_def segment_speaker_Sam new_frames_def Let_def)

subsection \<open>Sending audio outside the connected state\<close>

lemma deepgram_send_audio_idle:
  "\<not> is_connected self \<or> provider_websocket self = None \<Longrightarrow>
     deepgram_send_audio send_fault audio_data (self, w) = (Inr (), (self, w))"
  by (auto simp: deepgram_send_audio_def deepgram_send_audio_body_def split: option.splits)

lemma speechmatics_send_audio_idle:
  "\<not> is_connected self \<or> voice_client self = None \<Longrightarrow>
     speechmatics_send_audio send_fault audio_data (self, w) = (Inr (), (self, w))"
  by (auto simp: speechmatics_send_audio_def speechmatics_send_audio_body_def split: option.splits)




subsection \<open>Failures stay inside the adapter\<close>

lemma send_error_to_client_Inr: "send_error_to_client name ws msg w = (r, w') \<Longrightarrow> r = Inr ()"
  by (auto dest: send_error_to_client_frames)


lemma deepgram_connect_reports:
  assumes "deepgram_connect_body cf (self, w) = (Inl e, s1)"
    and "chan_fault (clients w (websocket self)) = None"
  shows "new_frames (websocket self) w (snd (snd (deepgram_connect cf (self, w)))) =
           [error_event deepgram_name (''Connection failed: '' @ str_exc e)]"
proof -
  from assms(1) have s1: "s1 = (self, w)"
    by (auto simp: deepgram_connect_body_def split: sum.splits option.splits)
  let ?w1 = "logger Error ''Failed to connect to Deepgram: {}'' [JStr (str_exc e)] w"
  obtain r w' where se: "send_error_to_client deepgram_name (websocket self)
      (''Connection failed: '' @ str_exc e) ?w1 = (r, w')"
    by (cases "send_error_to_client deepgram_name (websocket self)
      (''Connection failed: '' @ str_exc e) ?w1")
  from send_error_to_client_frames[OF se] assms(2)
  have "new_frames (websocket self) w w' = [error_event deepgram_name (''Connection failed: '' @ str_exc e)]"
    by (simp add: new_frames_def)
  with assms(1) s1 se show ?thesis by (simp add: deepgram_connect_def)
qed

lemma deepgram_disconnect_returns: "fst (deepgram_disconnect sf clf s) = Inr ()"
  by (auto simp: deepgram_disconnect_def split: sum.splits prod.splits)




lemma speechmatics_connect_body_world:
  "speechmatics_connect_body stf cf (self, w) = (Inl e, (self1, w1)) \<Longrightarrow>
     clients w1 = clients w \<and> websocket self1 = websocket self"
  by (auto simp: speechmatics_connect_body_def Let_def split: sum.splits option.splits)

lemma speechmatics_connect_reports:
  assumes "speechmatics_connect_body stf cf (self, w) = (Inl e, s1)"
    and "chan_fault (clients w (websocket self)) = None"
  shows "new_frames (websocket self) w (snd (snd (speechmatics_connect stf cf (self, w)))) =
           [error_event speechmatics_name (''Connection failed: '' @ str_exc e)]"
proof -
  obtain self1 w1 where s1: "s1 = (self1, w1)" by (cases s1)
  from speechmatics_connect_body_world[OF assms(1)[unfolded s1]]
  have cw: "clients w1 = clients w" "websocket self1 = websocket self" by auto
  let ?w2 = "logger Error ''Failed to connect to Speechmatics: {}'' [JStr (str_exc e)] w1"
  obtain r w' where se: "send_error_to_client speechmatics_name (websocket self)
      (''Connection failed: '' @ str_exc e) ?w2 = (r, w')"
    by (cases "send_error_to_client speechmatics_name (websocket self)
      (''Connection failed: '' @ str_exc e) ?w2")
  from send_error_to_client_frames[OF se] assms(2) cw
  have "new_frames (websocket self) w w' =
          [error_event speechmatics_name (''Connection failed: '' @ str_exc e)]"
    by (simp add: new_frames_def)
  with assms(1) s1 se cw show ?thesis by (simp add: speechmatics_connect_def)
qed

lemma speechmatics_disconnect_returns: "fst (speechmatics_disconnect clf s) = Inr ()"
  by (auto simp: speechmatics_disconnect_def split: sum.splits prod.splits)















lemma speechmatics_send_audio_self:
  "speechmatics_send_audio sf audio (p, w) = (r, (p', w')) \<Longrightarrow>
     (sf \<noteq> None \<longrightarrow> p' = p)"
  by (auto simp: speechmatics_send_audio_def speechmatics_send_audio_body_def sdk_call_def
           split: option.splits if_splits sum.splits prod.splits)







subsection \<open>Stopping and disconnecting twice\<close>



lemma speechmatics_disconnect_Inr:
  "speechmatics_disconnect clf s = (r, s') \<Longrightarrow> r = Inr ()"
  using speechmatics_disconnect_returns[of clf s] by simp

lemma deepgram_disconnect_Inr:
  "deepgram_disconnect sf clf s = (r, s') \<Longrightarrow> r = Inr ()"
  using deepgram_disconnect_returns[of sf clf s] by simp














subsection \<open>Processing a configuration\<close>

lemma send_text_ok:
  "chan_fault (clients w ws) = None \<Longrightarrow>
     \<exists>w'. send_text ws v w = (Inr (), w') \<and> chan_fault (clients w' ws) = None \<and>
          chan_out (clients w' ws) = chan_out (clients w ws) @ [v]"
  by (simp add: send_text_def)

lemma send_error_to_client_ok:
  "chan_fault (clients w ws) = None \<Longrightarrow>
     \<exists>w'. send_error_to_client name ws msg w = (Inr (), w') \<and>
          chan_fault (clients w' ws) = None \<and>
          chan_out (clients w' ws) = chan_out (clients w ws) @ [error_event name msg]"
  by (simp add: send_error_to_client_def send_result_to_client_def send_text_def error_event_def)

text \<open>What a connect attempt on a fresh adapter leaves behind.\<close>

lemma speechmatics_connect_frames:
  assumes "chan_fault (clients w (websocket self)) = None"
  shows "\<exists>self' w' fs. speechmatics_connect stf cf (self, w) = (Inr (), (self', w')) \<and>
           chan_fault (clients w' (websocket self)) = None \<and>
           chan_out (clients w' (websocket self)) = chan_out (clients w (websocket self)) @ fs \<and>
           (fs = [] \<or> (\<exists>msg. fs = [error_event speechmatics_name (''Connection failed: '' @ msg)]))"
proof -
  obtain r self1 w1 where b: "speechmatics_connect_body stf cf (self, w) = (r, (self1, w1))"
    by (cases "speechmatics_connect_body stf cf (self, w)") auto
  show ?thesis
  proof (cases r)
    case (Inr u)
    with b have "clients w1 = clients w"
      by (auto simp: speechmatics_connect_body_def Let_def split: sum.splits option.splits)
    with b Inr assms show ?thesis by (simp add: speechmatics_connect_def)
  next
    case (Inl e)
    from speechmatics_connect_body_world[OF b[unfolded Inl]]
    have cw: "clients w1 = clients w" "websocket self1 = websocket self" by auto
    let ?w2 = "logger Error ''Failed to connect to Speechmatics: {}'' [JStr (str_exc e)] w1"
    from cw assms have "chan_fault (clients ?w2 (websocket self)) = None" by simp
    from send_error_to_client_ok[OF this, of speechmatics_name "''Connection failed: '' @ str_exc e"]
    obtain w' where "send_error_to_client speechmatics_name (websocket self)
        (''Connection failed: '' @ str_exc e) ?w2 = (Inr (), w')"
      "chan_fault (clients w' (websocket self)) = None"
      "chan_out (clients w' (websocket self)) = chan_out (clients ?w2 (websocket self)) @
         [error_event speechmatics_name (''Connection failed: '' @ str_exc e)]" by blast
    with b Inl cw show ?thesis by (auto simp: speechmatics_connect_def)
  qed
qed

lemma deepgram_connect_frames:
  assumes "chan_fault (clients w (websocket self)) = None"
  shows "\<exists>self' w' fs. deepgram_connect cf (self, w) = (Inr (), (self', w')) \<and>
           chan_fault (clients w' (websocket self)) = None \<and>
           chan_out (clients w' (websocket self)) = chan_out (clients w (websocket self)) @ fs \<and>
           (fs = [] \<or> (\<exists>msg. fs = [error_event deepgram_name (''Connection failed: '' @ msg)]))"
proof -
  obtain r self1 w1 where b: "deepgram_connect_body cf (self, w) = (r, (self1, w1))"
    by (cases "deepgram_connect_body cf (self, w)") auto
  show ?thesis
  proof (cases r)
    case (Inr u)
    with b have "clients w1 = clients w"
      by (auto simp: deepgram_connect_body_def split: sum.splits option.splits)
    with b Inr assms show ?thesis by (simp add: deepgram_connect_def)
  next
    case (Inl e)
    with b have cw: "w1 = w" "self1 = self"
      by (auto simp: deepgram_connect_body_def split: sum.splits option.splits)
    let ?w2 = "logger Error ''Failed to connect to Deepgram: {}'' [JStr (str_exc e)] w"
    from assms have "chan_fault (clients ?w2 (websocket self)) = None" by simp
    from send_error_to_client_ok[OF this, of deepgram_name "''Connection failed: '' @ str_exc e"]
    obtain w' where "send_error_to_client deepgram_name (websocket self)
        (''Connection failed: '' @ str_exc e) ?w2 = (Inr (), w')"
      "chan_fault (clients w' (websocket self)) = None"
      "chan_out (clients w' (websocket self)) = chan_out (clients ?w2 (websocket self)) @
         [error_event deepgram_name (''Connection failed: '' @ str_exc e)]" by blast
    with b Inl cw show ?thesis by (auto simp: deepgram_connect_def)
  qed
qed

lemma wf_entry:
  assumes "well_formed_config cfg" and "name \<in> {''audio'', ''speechmatics'', ''deepgram''}"
  shows "py_get cfg name (JObj []) = Inr (JObj (provider_entry cfg name))"
proof -
  from assms(1) obtain kvs where c: "cfg = JObj kvs"
    by (cases cfg) (auto simp: well_formed_config_def)
  with assms have "object_or_absent kvs name" by (auto simp: well_formed_config_def)
  with c show ?thesis
    by (auto simp: provider_entry_def object_or_absent_def split: option.splits json.splits)
qed

lemma wf_sample_rate:
  assumes "well_formed_config cfg"
  shows "then_do (py_get cfg ''audio'' (JObj [])) (\<lambda>audio_config.
           py_get audio_config ''sampleRate'' (JInt 16000)) = Inr (config_sample_rate cfg)"
  using wf_entry[OF assms, of "''audio''"] by (simp add: config_sample_rate_def)

lemma entry_key:
  "py_get (JObj (provider_entry cfg name)) ''apiKey'' JNull = Inr (entry_api_key cfg name)"
  "py_truthy (entry_api_key cfg name) = has_api_key cfg name"
  "has_api_key cfg name \<Longrightarrow>
     py_getitem (JObj (provider_entry cfg name)) ''apiKey'' = Inr (entry_api_key cfg name)"
  by (auto simp: entry_api_key_def has_api_key_def split: option.splits)

lemma websocket_new [simp]:
  "websocket (new_speechmatics cfg ws) = ws" "websocket (new_deepgram cfg ws) = ws"
  by (simp_all add: new_speechmatics_def new_deepgram_def SpeechmaticsProvider_def
        DeepgramProvider_def)

lemma init_speechmatics_run:
  assumes wf: "well_formed_config cfg" and chan: "chan_fault (clients w ws) = None"
  shows "\<exists>cd' w' fs.
           init_speechmatics faults ws cfg (config_sample_rate cfg) (cd, w) = (Inr (), (cd', w')) \<and>
           chan_fault (clients w' ws) = None \<and>
           chan_out (clients w' ws) = chan_out (clients w ws) @ fs \<and>
           deepgram cd' = deepgram cd \<and>
           (if has_api_key cfg ''speechmatics''
            then (\<exists>w0. speechmatics cd' =
                    Some (fst (snd (speechmatics_connect (sm_setup_fault faults)
                                      (sm_connect_fault faults)
                                      (new_speechmatics cfg ws, w0))))) \<and>
                 (fs = [] \<or>
                  (\<exists>msg. fs = [error_event speechmatics_name (''Connection failed: '' @ msg)]))
            else speechmatics cd' = speechmatics cd \<and>
                 fs = [api_key_not_provided ''speechmatics''])"
proof -
  let ?entry = "provider_entry cfg ''speechmatics''"
  let ?w0 = "logger Info ''[CONFIG] Extracted Speechmatics config: {}'' [JObj ?entry] w"
  have e: "py_get cfg ''speechmatics'' (JObj []) = Inr (JObj ?entry)"
    using wf_entry[OF wf] by simp
  from chan have chan0: "chan_fault (clients ?w0 ws) = None" by simp
  show ?thesis
  proof (cases "has_api_key cfg ''speechmatics''")
    case False
    from send_text_ok[OF chan0, of "api_key_not_provided ''speechmatics''"] obtain w' where
      "send_text ws (api_key_not_provided ''speechmatics'') ?w0 = (Inr (), w')"
      "chan_fault (clients w' ws) = None"
      "chan_out (clients w' ws) = chan_out (clients ?w0 ws) @ [api_key_not_provided ''speechmatics'']"
      by blast
    with False e show ?thesis
      by (simp add: init_speechmatics_def entry_key Let_def del: py_get.simps py_getitem.simps)
  next
    case True
    let ?p = "new_speechmatics cfg ws"
    have np: "SpeechmaticsProvider (entry_api_key cfg ''speechmatics'')
                (with_sample_rate (JObj ?entry) (config_sample_rate cfg)) ws = ?p"
      by (simp add: new_speechmatics_def with_sample_rate_def)
    from chan0 have "chan_fault (clients ?w0 (websocket ?p)) = None" by simp
    from speechmatics_connect_frames[OF this, of "sm_setup_fault faults" "sm_connect_fault faults"]
    obtain p' w' fs where c:
      "speechmatics_connect (sm_setup_fault faults) (sm_connect_fault faults) (?p, ?w0) =
         (Inr (), (p', w'))"
      "chan_fault (clients w' ws) = None"
      "chan_out (clients w' ws) = chan_out (clients ?w0 ws) @ fs"
      "fs = [] \<or> (\<exists>msg. fs = [error_event speechmatics_name (''Connection failed: '' @ msg)])"
      by auto
    from c(1) have "speechmatics_connect (sm_setup_fault faults) (sm_connect_fault faults)
        (SpeechmaticsProvider (entry_api_key cfg ''speechmatics'')
           (with_sample_rate (JObj ?entry) (config_sample_rate cfg)) ws, ?w0) = (Inr (), (p', w'))"
      by (simp only: np)
    with True e c(2-4) have
      "init_speechmatics faults ws cfg (config_sample_rate cfg) (cd, w) =
         (Inr (), (cd\<lparr>speechmatics := Some p'\<rparr>, w'))"
      by (simp add: init_speechmatics_def entry_key Let_def del: py_get.simps py_getitem.simps)
    moreover from c(1) have "p' = fst (snd (speechmatics_connect (sm_setup_fault faults)
        (sm_connect_fault faults) (?p, ?w0)))" by simp
    ultimately show ?thesis using True c(2-4) by auto
  qed
qed

lemma init_deepgram_run:
  assumes wf: "well_formed_config cfg" and chan: "chan_fault (clients w ws) = None"
  shows "\<exists>cd' w' fs.
           init_deepgram faults ws cfg (config_sample_rate cfg) (cd, w) = (Inr (), (cd', w')) \<and>
           chan_fault (clients w' ws) = None \<and>
           chan_out (clients w' ws) = chan_out (clients w ws) @ fs \<and>
           speechmatics cd' = speechmatics cd \<and>
           (if has_api_key cfg ''deepgram''
            then (\<exists>w0. deepgram cd' =
                    Some (fst (snd (deepgram_connect (dg_connect_fault faults)
                                      (new_deepgram cfg ws, w0))))) \<and>
                 (fs = [] \<or>
                  (\<exists>msg. fs = [error_event deepgram_name (''Connection failed: '' @ msg)]))
            else deepgram cd' = deepgram cd \<and> fs = [api_key_not_provided ''deepgram''])"
proof -
  let ?entry = "provider_entry cfg ''deepgram''"
  have e: "py_get cfg ''deepgram'' (JObj []) = Inr (JObj ?entry)"
    using wf_entry[OF wf] by simp
  show ?thesis
  proof (cases "has_api_key cfg ''deepgram''")
    case False
    from send_text_ok[OF chan, of "api_key_not_provided ''deepgram''"] obtain w' where
      "send_text ws (api_key_not_provided ''deepgram'') w = (Inr (), w')"
      "chan_fault (clients w' ws) = None"
      "chan_out (clients w' ws) = chan_out (clients w ws) @ [api_key_not_provided ''deepgram'']"
      by blast
    with False e show ?thesis
      by (simp add: init_deepgram_def entry_key del: py_get.simps py_getitem.simps)
  next
    case True
    let ?p = "new_deepgram cfg ws"
    have np: "DeepgramProvider (entry_api_key cfg ''deepgram'')
                (with_sample_rate (JObj ?entry) (config_sample_rate cfg)) ws = ?p"
      by (simp add: new_deepgram_def with_sample_rate_def)
    from chan have "chan_fault (clients w (websocket ?p)) = None" by simp
    from deepgram_connect_frames[OF this, of "dg_connect_fault faults"]
    obtain p' w' fs where c:
      "deepgram_connect (dg_connect_fault faults) (?p, w) = (Inr (), (p', w'))"
      "chan_fault (clients w' ws) = None"
      "chan_out (clients w' ws) = chan_out (clients w ws) @ fs"
      "fs = [] \<or> (\<exists>msg. fs = [error_event deepgram_name (''Connection failed: '' @ msg)])"
      by auto
    from c(1) have "deepgram_connect (dg_connect_fault faults)
        (DeepgramProvider (entry_api_key cfg ''deepgram'')
           (with_sample_rate (JObj ?entry) (config_sample_rate cfg)) ws, w) = (Inr (), (p', w'))"
      by (simp only: np)
    with True e c(2-4) have
      "init_deepgram faults ws cfg (config_sample_rate cfg) (cd, w) =
         (Inr (), (cd\<lparr>deepgram := Some p'\<rparr>, w'))"
      by (simp add: init_deepgram_def entry_key del: py_get.simps py_getitem.simps)
    moreover from c(1) have "p' = fst (snd (deepgram_connect (dg_connect_fault faults) (?p, w)))"
      by simp
    ultimately show ?thesis using True c(2-4) by auto
  qed
qed

lemma initialize_providers_run:
  assumes wf: "well_formed_config cfg" and reg: "m ws = Some cd"
    and chan: "chan_fault (clients w ws) = None"
  shows "\<exists>cd' w' fs1 fs2.
           initialize_providers faults ws cfg (m, w) = (Inr (), (m(ws \<mapsto> cd'), w')) \<and>
           chan_fault (clients w' ws) = None \<and>
           chan_out (clients w' ws) = chan_out (clients w ws) @ fs1 @ fs2 \<and>
           (if has_api_key cfg ''speechmatics''
            then (\<exists>w0. speechmatics cd' =
                    Some (fst (snd (speechmatics_connect (sm_setup_fault faults)
                                      (sm_connect_fault faults)
                                      (new_speechmatics cfg ws, w0))))) \<and>
                 (fs1 = [] \<or>
                  (\<exists>msg. fs1 = [error_event speechmatics_name (''Connection failed: '' @ msg)]))
            else speechmatics cd' = speechmatics cd \<and>
                 fs1 = [api_key_not_provided ''speechmatics'']) \<and>
           (if has_api_key cfg ''deepgram''
            then (\<exists>w0. deepgram cd' =
                    Some (fst (snd (deepgram_connect (dg_connect_fault faults)
                                      (new_deepgram cfg ws, w0))))) \<and>
                 (fs2 = [] \<or>
                  (\<exists>msg. fs2 = [error_event deepgram_name (''Connection failed: '' @ msg)]))
            else deepgram cd' = deepgram cd \<and> fs2 = [api_key_not_provided ''deepgram''])"
proof -
  let ?cd0 = "cd\<lparr>last_config := Some cfg\<rparr>"
  let ?sr = "config_sample_rate cfg"
  from init_speechmatics_run[OF wf chan, of faults ?cd0] obtain cd1 w1 fs1 where s:
    "init_speechmatics faults ws cfg ?sr (?cd0, w) = (Inr (), (cd1, w1))"
    "chan_fault (clients w1 ws) = None"
    "chan_out (clients w1 ws) = chan_out (clients w ws) @ fs1"
    "deepgram cd1 = deepgram ?cd0"
    "if has_api_key cfg ''speechmatics''
     then (\<exists>w0. speechmatics cd1 =
             Some (fst (snd (speechmatics_connect (sm_setup_fault faults)
                               (sm_connect_fault faults) (new_speechmatics cfg ws, w0))))) \<and>
          (fs1 = [] \<or>
           (\<exists>msg. fs1 = [error_event speechmatics_name (''Connection failed: '' @ msg)]))
     else speechmatics cd1 = speechmatics ?cd0 \<and> fs1 = [api_key_not_provided ''speechmatics'']"
    by blast
  from init_deepgram_run[OF wf s(2), of faults cd1] obtain cd2 w2 fs2 where d:
    "init_deepgram faults ws cfg ?sr (cd1, w1) = (Inr (), (cd2, w2))"
    "chan_fault (clients w2 ws) = None"
    "chan_out (clients w2 ws) = chan_out (clients w1 ws) @ fs2"
    "speechmatics cd2 = speechmatics cd1"
    "if has_api_key cfg ''deepgram''
     then (\<exists>w0. deepgram cd2 =
             Some (fst (snd (deepgram_connect (dg_connect_fault faults)
                               (new_deepgram cfg ws, w0))))) \<and>
          (fs2 = [] \<or>
           (\<exists>msg. fs2 = [error_event deepgram_name (''Connection failed: '' @ msg)]))
     else deepgram cd2 = deepgram cd1 \<and> fs2 = [api_key_not_provided ''deepgram'']"
    by blast
  from s(1) d(1) have body:
    "initialize_providers_body faults ws cfg (?cd0, w) = (Inr (), (cd2, w2))"
    by (simp add: initialize_providers_body_def wf_sample_rate[OF wf])
  with reg have run:
    "initialize_providers faults ws cfg (m, w) = (Inr (), (m(ws \<mapsto> cd2), w2))"
    by (simp add: initialize_providers_def)
  have sm: "if has_api_key cfg ''speechmatics''
     then (\<exists>w0. speechmatics cd2 =
             Some (fst (snd (speechmatics_connect (sm_setup_fault faults)
                               (sm_connect_fault faults) (new_speechmatics cfg ws, w0))))) \<and>
          (fs1 = [] \<or>
           (\<exists>msg. fs1 = [error_event speechmatics_name (''Connection failed: '' @ msg)]))
     else speechmatics cd2 = speechmatics cd \<and> fs1 = [api_key_not_provided ''speechmatics'']"
    using s(5) d(4) by (simp split: if_splits)
  have dg: "if has_api_key cfg ''deepgram''
     then (\<exists>w0. deepgram cd2 =
             Some (fst (snd (deepgram_connect (dg_connect_fault faults)
                               (new_deepgram cfg ws, w0))))) \<and>
          (fs2 = [] \<or>
           (\<exists>msg. fs2 = [error_event deepgram_name (''Connection failed: '' @ msg)]))
     else deepgram cd2 = deepgram cd \<and> fs2 = [api_key_not_provided ''deepgram'']"
    using d(5) s(4) by (simp split: if_splits)
  from s(3) d(3) have "chan_out (clients w2 ws) = chan_out (clients w ws) @ fs1 @ fs2" by simp
  with run d(2) sm dg show ?thesis by blast
qed





subsection \<open>An adapter whose connect failed\<close>

lemma deepgram_connect_failed:
  "deepgram_connect (Some e) (self, w) = (r, (self', w')) \<Longrightarrow> r = Inr () \<and> self' = self"
  by (auto simp: deepgram_connect_def deepgram_connect_body_def
           split: sum.splits prod.splits dest: send_error_to_client_Inr)

lemma deepgram_connect_refused:
  assumes "config self = JObj c" and "chan_fault (clients w (websocket self)) = None"
  shows "fst (deepgram_connect (Some e) (self, w)) = Inr () \<and>
         fst (snd (deepgram_connect (Some e) (self, w))) = self \<and>
         new_frames (websocket self) w (snd (snd (deepgram_connect (Some e) (self, w)))) =
           [error_event deepgram_name (''Connection failed: '' @ str_exc e)]"
proof -
  from assms(1) have b: "deepgram_connect_body (Some e) (self, w) = (Inl e, (self, w))"
    by (simp add: deepgram_connect_body_def)
  obtain r self' w' where c: "deepgram_connect (Some e) (self, w) = (r, (self', w'))"
    by (cases "deepgram_connect (Some e) (self, w)") auto
  from deepgram_connect_failed[OF c] deepgram_connect_reports[OF b assms(2)] c
  show ?thesis by simp
qed

lemma speechmatics_connect_failed:
  assumes "speechmatics_connect stf (Some e) (self, w) = (r, (self', w'))"
  shows "r = Inr () \<and> is_connected self' = is_connected self \<and> websocket self' = websocket self"
  using assms
  by (auto simp: speechmatics_connect_def speechmatics_connect_body_def Let_def
           split: sum.splits prod.splits option.splits dest: send_error_to_client_Inr)

lemma speechmatics_connect_refused:
  assumes "chan_fault (clients w (websocket self)) = None"
  shows "fst (speechmatics_connect stf (Some e) (self, w)) = Inr () \<and>
         is_connected (fst (snd (speechmatics_connect stf (Some e) (self, w)))) =
           is_connected self \<and>
         (\<exists>msg. new_frames (websocket self) w
                  (snd (snd (speechmatics_connect stf (Some e) (self, w)))) =
                [error_event speechmatics_name (''Connection failed: '' @ msg)])"
proof -
  obtain r1 s1 where b: "speechmatics_connect_body stf (Some e) (self, w) = (r1, s1)"
    by (cases "speechmatics_connect_body stf (Some e) (self, w)")
  then obtain e1 where r1: "r1 = Inl e1"
    by (auto simp: speechmatics_connect_body_def Let_def split: sum.splits option.splits)
  obtain r self' w' where c: "speechmatics_connect stf (Some e) (self, w) = (r, (self', w'))"
    by (cases "speechmatics_connect stf (Some e) (self, w)") auto
  from speechmatics_connect_failed[OF c] speechmatics_connect_reports[OF b[unfolded r1] assms] c
  show ?thesis by auto
qed

lemma update_own_slot:
  "speechmatics cd = Some p \<Longrightarrow> cd\<lparr>speechmatics := Some p\<rparr> = cd"
  "deepgram cd = Some q \<Longrightarrow> cd\<lparr>deepgram := Some q\<rparr> = cd"
  by (cases cd, simp)+

lemma send_audio_to_idle_providers:
  assumes "m ws = Some cd"
    and "\<forall>p. speechmatics cd = Some p \<longrightarrow> \<not> is_connected p"
    and "\<forall>q. deepgram cd = Some q \<longrightarrow> \<not> is_connected q"
  shows "send_audio_to_providers f_a f_b ws audio (m, w) = (Inr (), (m, w))"
proof -
  have s: "(case speechmatics cd of
              None \<Rightarrow> (cd, w)
            | Some p \<Rightarrow> (case speechmatics_send_audio f_a audio (p, w) of
                          (r, (p', w')) \<Rightarrow> (cd\<lparr>speechmatics := Some p'\<rparr>, w'))) = (cd, w)"
    using assms(2) by (auto simp: speechmatics_send_audio_idle update_own_slot split: option.splits)
  have d: "(case deepgram cd of
              None \<Rightarrow> (cd, w)
            | Some p \<Rightarrow> (case deepgram_send_audio f_b audio (p, w) of
                          (r, (p', w')) \<Rightarrow> (cd\<lparr>deepgram := Some p'\<rparr>, w'))) = (cd, w)"
    using assms(3) by (auto simp: deepgram_send_audio_idle update_own_slot split: option.splits)
  from assms(1) have "m(ws \<mapsto> cd) = m" by (simp add: fun_upd_idem)
  with assms(1) s d show ?thesis by (simp add: send_audio_to_providers_def)
qed

lemma stop_providers_deepgram:
  assumes "m ws = Some cd" and "speechmatics cd = None" and "deepgram cd = Some p"
  shows "stop_providers f ws (m, w) =
           (Inr (), (m(ws \<mapsto> cd\<lparr>deepgram := None\<rparr>),
                     snd (snd (deepgram_disconnect (dg_send_fault f) (dg_close_fault f) (p, w)))))"
proof -
  obtain r p' w' where d:
    "deepgram_disconnect (dg_send_fault f) (dg_close_fault f) (p, w) = (r, (p', w'))"
    by (cases "deepgram_disconnect (dg_send_fault f) (dg_close_fault f) (p, w)") auto
  from deepgram_disconnect_Inr[OF d] have "r = Inr ()" .
  with assms d show ?thesis by (simp add: stop_providers_def)
qed

lemma stop_providers_speechmatics:
  assumes "m ws = Some cd" and "speechmatics cd = Some q" and "deepgram cd = None"
  shows "stop_providers f ws (m, w) =
           (Inr (), (m(ws \<mapsto> cd\<lparr>speechmatics := None\<rparr>),
                     snd (snd (speechmatics_disconnect (sm_close_fault f) (q, w)))))"
proof -
  obtain r q' w' where d: "speechmatics_disconnect (sm_close_fault f) (q, w) = (r, (q', w'))"
    by (cases "speechmatics_disconnect (sm_close_fault f) (q, w)") auto
  from speechmatics_disconnect_Inr[OF d] have "r = Inr ()" .
  with assms d show ?thesis by (simp add: stop_providers_def)
qed

lemma deepgram_disconnect_never_connected:
  "provider_websocket p = None \<Longrightarrow>
     snd (snd (deepgram_disconnect f_a f_b (p, w))) = logger Info ''Disconnected from Deepgram'' [] w"
  by (simp add: deepgram_disconnect_def deepgram_disconnect_body_def)

lemma new_adapters_idle [simp]:
  "\<not> is_connected (new_deepgram cfg ws)" "provider_websocket (new_deepgram cfg ws) = None"
  "\<not> is_connected (new_speechmatics cfg ws)"
  "config (new_deepgram cfg ws) =
     JObj (AList.update ''sampleRate'' (config_sample_rate cfg) (provider_entry cfg ''deepgram''))"
  by (simp_all add: new_deepgram_def new_speechmatics_def DeepgramProvider_def
        SpeechmaticsProvider_def)

lemma initialize_providers_keeps_failed_deepgram:
  assumes "well_formed_config cfg" and "m ws = Some cd" and "chan_fault (clients w ws) = None"
    and "has_api_key cfg ''deepgram''" and "dg_connect_fault faults = Some e"
  shows "\<exists>m' w' cd'. initialize_providers faults ws cfg (m, w) = (Inr (), (m', w')) \<and>
           m' ws = Some cd' \<and> deepgram cd' = Some (new_deepgram cfg ws)"
proof -
  from initialize_providers_run[where m = m and ws = ws and cd = cd and cfg = cfg and w = w
      and faults = faults, OF assms(1-3)] assms(4,5)
  obtain cd' w' w0 where r:
    "initialize_providers faults ws cfg (m, w) = (Inr (), (m(ws \<mapsto> cd'), w'))"
    "deepgram cd' = Some (fst (snd (deepgram_connect (Some e) (new_deepgram cfg ws, w0))))"
    by auto
  obtain r1 p1 w1 where c: "deepgram_connect (Some e) (new_deepgram cfg ws, w0) = (r1, (p1, w1))"
    by (cases "deepgram_connect (Some e) (new_deepgram cfg ws, w0)") auto
  from deepgram_connect_failed[OF c] c r(2) have "deepgram cd' = Some (new_deepgram cfg ws)"
    by simp
  with r(1) show ?thesis by (intro exI[of _ "m(ws \<mapsto> cd')"] exI[of _ w'] exI[of _ cd']) simp
qed

lemma initialize_providers_keeps_failed_speechmatics:
  assumes "well_formed_config cfg" and "m ws = Some cd" and "chan_fault (clients w ws) = None"
    and "has_api_key cfg ''speechmatics''" and "sm_connect_fault faults = Some e"
  shows "\<exists>m' w' cd' q. initialize_providers faults ws cfg (m, w) = (Inr (), (m', w')) \<and>
           m' ws = Some cd' \<and> speechmatics cd' = Some q \<and> \<not> is_connected q"
proof -
  from initialize_providers_run[where m = m and ws = ws and cd = cd and cfg = cfg and w = w
      and faults = faults, OF assms(1-3)] assms(4,5)
  obtain cd' w' w0 where r:
    "initialize_providers faults ws cfg (m, w) = (Inr (), (m(ws \<mapsto> cd'), w'))"
    "speechmatics cd' = Some (fst (snd (speechmatics_connect (sm_setup_fault faults) (Some e)
                                          (new_speechmatics cfg ws, w0))))"
    by auto
  obtain r1 p1 w1 where c: "speechmatics_connect (sm_setup_fault faults) (Some e)
      (new_speechmatics cfg ws, w0) = (r1, (p1, w1))"
    by (cases "speechmatics_connect (sm_setup_fault faults) (Some e)
      (new_speechmatics cfg ws, w0)") auto
  from speechmatics_connect_failed[OF c] c r(2)
  have "speechmatics cd' = Some p1" "\<not> is_connected p1" by simp_all
  with r(1) show ?thesis
    by (intro exI[of _ "m(ws \<mapsto> cd')"] exI[of _ w'] exI[of _ cd'] exI[of _ p1]) simp
qed

text \<open>
  C10. When the vendor refuses the connection, \<^verbatim>\<open>connect\<close> returns normally after writing
  the error event, and the adapter's \<^verbatim>\<open>is_connected\<close> is as before (false on a new
  adapter); a Deepgram adapter is unchanged altogether. \<^verbatim>\<open>initialize_providers\<close> still
  stores the adapter in the session's slot. A later audio frame changes nothing when the
  adapters in the slots are not connected: nothing is sent and nothing is reported. A
  later \<^verbatim>\<open>stop_providers\<close> runs the adapter's \<^verbatim>\<open>disconnect\<close> (the state after the stop is
  the state after that \<^verbatim>\<open>disconnect\<close>) and clears the slot.
\<close>

theorem failed_connect_adapter_is_kept:
  "(config dg = JObj c \<and> chan_fault (clients w (websocket dg)) = None \<longrightarrow>
      fst (deepgram_connect (Some e) (dg, w)) = Inr () \<and>
      fst (snd (deepgram_connect (Some e) (dg, w))) = dg \<and>
      new_frames (websocket dg) w (snd (snd (deepgram_connect (Some e) (dg, w)))) =
        [error_event deepgram_name (''Connection failed: '' @ str_exc e)]) \<and>
   (chan_fault (clients w_b (websocket sm)) = None \<longrightarrow>
      fst (speechmatics_connect stf (Some e_b) (sm, w_b)) = Inr () \<and>
      is_connected (fst (snd (speechmatics_connect stf (Some e_b) (sm, w_b)))) =
        is_connected sm \<and>
      (\<exists>msg. new_frames (websocket sm) w_b
               (snd (snd (speechmatics_connect stf (Some e_b) (sm, w_b)))) =
             [error_event speechmatics_name (''Connection failed: '' @ msg)])) \<and>
   (well_formed_config cfg \<and> m ws = Some cd \<and> chan_fault (clients w_c ws) = None \<and>
    has_api_key cfg ''deepgram'' \<and> dg_connect_fault faults = Some e_c \<longrightarrow>
      (\<exists>m' w' cd'. initialize_providers faults ws cfg (m, w_c) = (Inr (), (m', w')) \<and>
         m' ws = Some cd' \<and> deepgram cd' = Some (new_deepgram cfg ws)) \<and>
      \<not> is_connected (new_deepgram cfg ws) \<and> provider_websocket (new_deepgram cfg ws) = None) \<and>
   (well_formed_config cfg_d \<and> m_d ws_d = Some cd_d \<and> chan_fault (clients w_d ws_d) = None \<and>
    has_api_key cfg_d ''speechmatics'' \<and> sm_connect_fault faults_d = Some e_d \<longrightarrow>
      (\<exists>m' w' cd' q. initialize_providers faults_d ws_d cfg_d (m_d, w_d) = (Inr (), (m', w')) \<and>
         m' ws_d = Some cd' \<and> speechmatics cd' = Some q \<and> \<not> is_connected q)) \<and>
   (m_e ws_e = Some cd_e \<and> (\<forall>p. speechmatics cd_e = Some p \<longrightarrow> \<not> is_connected p) \<and>
    (\<forall>q. deepgram cd_e = Some q \<longrightarrow> \<not> is_connected q) \<longrightarrow>
      send_audio_to_providers f_a f_b ws_e audio (m_e, w_e) = (Inr (), (m_e, w_e))) \<and>
   (m_f ws_f = Some cd_f \<and> speechmatics cd_f = None \<and> deepgram cd_f = Some p_f \<longrightarrow>
      stop_providers f_f ws_f (m_f, w_f) =
        (Inr (), (m_f(ws_f \<mapsto> cd_f\<lparr>deepgram := None\<rparr>),
                  snd (snd (deepgram_disconnect (dg_send_fault f_f) (dg_close_fault f_f)
                              (p_f, w_f)))))) \<and>
   (m_g ws_g = Some cd_g \<and> speechmatics cd_g = Some q_g \<and> deepgram cd_g = None \<longrightarrow>
      stop_providers f_g ws_g (m_g, w_g) =
        (Inr (), (m_g(ws_g \<mapsto> cd_g\<lparr>speechmatics := None\<rparr>),
                  snd (snd (speechmatics_disconnect (sm_close_fault f_g) (q_g, w_g))))))"
  apply (intro conjI impI)
  subgoal by (elim conjE) (rule deepgram_connect_refused[THEN conjunct1])
  subgoal by (elim conjE) (rule deepgram_connect_refused[THEN conjunct2, THEN conjunct1])
  subgoal by (elim conjE) (rule deepgram_connect_refused[THEN conjunct2, THEN conjunct2])
  subgoal by (rule speechmatics_connect_refused[THEN conjunct1])
  subgoal by (rule speechmatics_connect_refused[THEN conjunct2, THEN conjunct1])
  subgoal by (rule speechmatics_connect_refused[THEN conjunct2, THEN conjunct2])
  subgoal by (elim conjE) (rule initialize_providers_keeps_failed_deepgram)
  subgoal by simp
  subgoal by simp
  subgoal by (elim conjE) (rule initialize_providers_keeps_failed_speechmatics)
  subgoal by (elim conjE) (rule send_audio_to_idle_providers)
  subgoal by (elim conjE) (rule stop_providers_deepgram)
  subgoal by (elim conjE) (rule stop_providers_speechmatics)
  done

text \<open>A configuration whose Deepgram (Speechmatics) connection is refused, then an audio
  frame, then a stop: the log line of \<^verbatim>\<open>disconnect\<close> shows that it ran.\<close>

theorem failed_connect_adapter_is_kept_witness:
  "config (new_deepgram deepgram_only_config 0) =
     JObj [(''apiKey'', JStr ''k''), (''sampleRate'', JInt 16000)] \<and>
   chan_fault (clients quiet_world 0) = None \<and>
   fst (deepgram_connect (Some refused) (new_deepgram deepgram_only_config 0, quiet_world)) =
     Inr () \<and>
   fst (snd (deepgram_connect (Some refused) (new_deepgram deepgram_only_config 0, quiet_world))) =
     new_deepgram deepgram_only_config 0 \<and>
   new_frames 0 quiet_world
     (snd (snd (deepgram_connect (Some refused)
                  (new_deepgram deepgram_only_config 0, quiet_world)))) =
     [error_event deepgram_name (''Connection failed: '' @ str_exc refused)] \<and>
   fst (speechmatics_connect None (Some refused) (fresh_speechmatics, quiet_world)) = Inr () \<and>
   \<not> is_connected (fst (snd (speechmatics_connect None (Some refused)
                                (fresh_speechmatics, quiet_world)))) \<and>
   well_formed_config deepgram_only_config \<and> one_session 0 = Some empty_session \<and>
   has_api_key deepgram_only_config ''deepgram'' \<and>
   dg_connect_fault deepgram_refuses = Some refused \<and>
   (\<exists>m' w' cd'. initialize_providers deepgram_refuses 0 deepgram_only_config
                   (one_session, quiet_world) = (Inr (), (m', w')) \<and>
      m' 0 = Some cd' \<and> deepgram cd' = Some (new_deepgram deepgram_only_config 0)) \<and>
   \<not> is_connected (new_deepgram deepgram_only_config 0) \<and>
   well_formed_config speechmatics_only_config \<and>
   has_api_key speechmatics_only_config ''speechmatics'' \<and>
   sm_connect_fault speechmatics_refuses = Some refused \<and>
   (\<exists>m' w' cd' q. initialize_providers speechmatics_refuses 0 speechmatics_only_config
                     (one_session, quiet_world) = (Inr (), (m', w')) \<and>
      m' 0 = Some cd' \<and> speechmatics cd' = Some q \<and> \<not> is_connected q) \<and>
   send_audio_to_providers None None 0 [1, 2]
       (Map.empty(0 \<mapsto> failed_deepgram_session), quiet_world) =
     (Inr (), (Map.empty(0 \<mapsto> failed_deepgram_session), quiet_world)) \<and>
   stop_providers no_close_faults 0 (Map.empty(0 \<mapsto> failed_deepgram_session), quiet_world) =
     (Inr (), (Map.empty(0 \<mapsto> failed_deepgram_session\<lparr>deepgram := None\<rparr>),
               logger Info ''Disconnected from Deepgram'' [] quiet_world)) \<and>
   stop_providers no_close_faults 0
       (Map.empty(0 \<mapsto> failed_speechmatics_session), quiet_world) =
     (Inr (), (Map.empty(0 \<mapsto> failed_speechmatics_session\<lparr>speechmatics := None\<rparr>),
               logger Info ''Disconnected from Speechmatics'' [] quiet_world))"
proof -
  let ?dg = "new_deepgram deepgram_only_config 0"
  let ?mf = "Map.empty(0 \<mapsto> failed_deepgram_session)"
  let ?mg = "Map.empty(0 \<mapsto> failed_speechmatics_session)"
  note T = failed_connect_adapter_is_kept[where dg = ?dg
      and c = "[(''apiKey'', JStr ''k''), (''sampleRate'', JInt 16000)]" and w = quiet_world
      and e = refused and w_b = quiet_world and sm = fresh_speechmatics and stf = None
      and e_b = refused and cfg = deepgram_only_config and m = one_session and ws = 0
      and cd = empty_session and w_c = quiet_world and faults = deepgram_refuses
      and e_c = refused and cfg_d = speechmatics_only_config and m_d = one_session
      and ws_d = 0 and cd_d = empty_session and w_d = quiet_world
      and faults_d = speechmatics_refuses and e_d = refused
      and m_e = ?mf and ws_e = 0 and cd_e = failed_deepgram_session and f_a = None
      and f_b = None and audio = "[1, 2]" and w_e = quiet_world
      and m_f = ?mf and ws_f = 0 and cd_f = failed_deepgram_session and p_f = ?dg
      and f_f = no_close_faults and w_f = quiet_world
      and m_g = ?mg and ws_g = 0 and cd_g = failed_speechmatics_session
      and q_g = failed_speechmatics and f_g = no_close_faults and w_g = quiet_world]
  have ha: "config ?dg = JObj [(''apiKey'', JStr ''k''), (''sampleRate'', JInt 16000)]"
    by (simp add: new_deepgram_def DeepgramProvider_def deepgram_only_config_def
          provider_entry_def config_sample_rate_def)
  have hq: "chan_fault (clients quiet_world 0) = None" by (simp add: quiet_world_def)
  have wsd: "websocket ?dg = 0" "websocket fresh_speechmatics = 0"
    by (simp_all add: fresh_speechmatics_def SpeechmaticsProvider_def)
  have hqa: "chan_fault (clients quiet_world (websocket ?dg)) = None"
    "chan_fault (clients quiet_world (websocket fresh_speechmatics)) = None"
    by (simp_all only: wsd hq)
  note ca = T[THEN conjunct1, THEN mp, OF conjI[OF ha hqa(1)]]
  have ca3: "new_frames 0 quiet_world (snd (snd (deepgram_connect (Some refused) (?dg, quiet_world)))) =
     [error_event deepgram_name (''Connection failed: '' @ str_exc refused)]"
    using ca[THEN conjunct2, THEN conjunct2] by (simp only: wsd)
  note cb = T[THEN conjunct2, THEN conjunct1, THEN mp, OF hqa(2)]
  have cb2: "\<not> is_connected (fst (snd (speechmatics_connect None (Some refused)
                                (fresh_speechmatics, quiet_world))))"
    using cb[THEN conjunct2, THEN conjunct1]
    by (simp add: fresh_speechmatics_def SpeechmaticsProvider_def)
  have hc: "well_formed_config deepgram_only_config" "one_session 0 = Some empty_session"
    "has_api_key deepgram_only_config ''deepgram''"
    "dg_connect_fault deepgram_refuses = Some refused"
    by (simp_all add: well_formed_config_def deepgram_only_config_def object_or_absent_def
          one_session_def manager_connect_def empty_session_def has_api_key_def
          provider_entry_def deepgram_refuses_def)
  note cc = T[THEN conjunct2, THEN conjunct2, THEN conjunct1, THEN mp,
              OF conjI[OF hc(1) conjI[OF hc(2) conjI[OF hq conjI[OF hc(3) hc(4)]]]]]
  have hd: "well_formed_config speechmatics_only_config"
    "has_api_key speechmatics_only_config ''speechmatics''"
    "sm_connect_fault speechmatics_refuses = Some refused"
    by (simp_all add: well_formed_config_def speechmatics_only_config_def object_or_absent_def
          has_api_key_def provider_entry_def speechmatics_refuses_def)
  note cd = T[THEN conjunct2, THEN conjunct2, THEN conjunct2, THEN conjunct1, THEN mp,
              OF conjI[OF hd(1) conjI[OF hc(2) conjI[OF hq conjI[OF hd(2) hd(3)]]]]]
  have he: "?mf 0 = Some failed_deepgram_session"
    "\<forall>p. speechmatics failed_deepgram_session = Some p \<longrightarrow> \<not> is_connected p"
    "\<forall>q. deepgram failed_deepgram_session = Some q \<longrightarrow> \<not> is_connected q"
    "speechmatics failed_deepgram_session = None"
    "deepgram failed_deepgram_session = Some ?dg"
    by (simp_all add: failed_deepgram_session_def)
  note ce = T[THEN conjunct2, THEN conjunct2, THEN conjunct2, THEN conjunct2, THEN conjunct1,
              THEN mp, OF conjI[OF he(1) conjI[OF he(2) he(3)]]]
  note cf = T[THEN conjunct2, THEN conjunct2, THEN conjunct2, THEN conjunct2, THEN conjunct2,
              THEN conjunct1, THEN mp, OF conjI[OF he(1) conjI[OF he(4) he(5)]]]
  have cf': "stop_providers no_close_faults 0 (?mf, quiet_world) =
     (Inr (), (Map.empty(0 \<mapsto> failed_deepgram_session\<lparr>deepgram := None\<rparr>),
               logger Info ''Disconnected from Deepgram'' [] quiet_world))"
    using cf by (simp add: deepgram_disconnect_never_connected)
  have hg: "?mg 0 = Some failed_speechmatics_session"
    "speechmatics failed_speechmatics_session = Some failed_speechmatics"
    "deepgram failed_speechmatics_session = None"
    by (simp_all add: failed_speechmatics_session_def)
  note cg = T[THEN conjunct2, THEN conjunct2, THEN conjunct2, THEN conjunct2, THEN conjunct2,
              THEN conjunct2, THEN mp, OF conjI[OF hg(1) conjI[OF hg(2) hg(3)]]]
  have cg': "stop_providers no_close_faults 0 (?mg, quiet_world) =
     (Inr (), (Map.empty(0 \<mapsto> failed_speechmatics_session\<lparr>speechmatics := None\<rparr>),
               logger Info ''Disconnected from Speechmatics'' [] quiet_world))"
    using cg
    by (simp add: speechmatics_disconnect_def speechmatics_disconnect_body_def sdk_call_def
          failed_speechmatics_def no_close_faults_def)
  show ?thesis
    by (intro conjI)
       (fact ha hq ca[THEN conjunct1] ca[THEN conjunct2, THEN conjunct1] ca3
             cb[THEN conjunct1] cb2 hc cc[THEN conjunct1] cc[THEN conjunct2, THEN conjunct1]
             hd cd ce cf' cg')+
qed

subsection \<open>The most common speaker\<close>

lemma filter_split:
  "filter P xs = ys @ z # zs \<Longrightarrow> \<exists>a b. xs = a @ z # b \<and> filter P a = ys"
proof (induction xs arbitrary: ys)
  case Nil
  then show ?case by simp
next
  case (Cons x xs)
  show ?case
  proof (cases "P x")
    case False
    with Cons.prems have "filter P xs = ys @ z # zs" by simp
    from Cons.IH[OF this] obtain a b where "xs = a @ z # b" "filter P a = ys" by blast
    with False have "x # xs = (x # a) @ z # b \<and> filter P (x # a) = ys" by simp
    then show ?thesis by blast
  next
    case True
    show ?thesis
    proof (cases ys)
      case Nil
      with True Cons.prems have "x # xs = [] @ z # xs \<and> filter P [] = ys" by simp
      then show ?thesis by blast
    next
      case (Cons y ys')
      with True Cons.prems have "filter P xs = ys' @ z # zs" "y = x" by simp_all
      from Cons.IH[OF this(1)] obtain a b where "xs = a @ z # b" "filter P a = ys'" by blast
      with True Cons \<open>y = x\<close> have "x # xs = (x # a) @ z # b \<and> filter P (x # a) = ys" by simp
      then show ?thesis by blast
    qed
  qed
qed

lemma count_elements_hashable:
  "count_elements xs c = Inr c' \<Longrightarrow> \<forall>x\<in>set xs. \<exists>k. py_hash x = Inr k"
  by (induction xs arbitrary: c) (auto simp: then_do_Inr_iff)

lemma count_elements_head:
  "count_elements xs ((k0, v0, n0) # c) = Inr c' \<Longrightarrow>
     \<exists>c''. count_elements (filter (\<lambda>x. py_hash x \<noteq> Inr k0) xs) c = Inr c'' \<and>
           c' = (k0, v0, n0 + length (filter (\<lambda>x. py_hash x = Inr k0) xs)) # c''"
proof (induction xs arbitrary: n0 c)
  case Nil
  then show ?case by simp
next
  case (Cons x xs)
  from Cons.prems obtain k where k: "py_hash x = Inr k"
    and r: "count_elements xs (counter_incr k x ((k0, v0, n0) # c)) = Inr c'"
    by (auto simp: then_do_Inr_iff)
  show ?case
  proof (cases "k = k0")
    case True
    with r have "count_elements xs ((k0, v0, Suc n0) # c) = Inr c'" by simp
    from Cons.IH[OF this] k True show ?thesis by auto
  next
    case False
    with r have "count_elements xs ((k0, v0, n0) # counter_incr k x c) = Inr c'" by simp
    from Cons.IH[OF this] k False show ?thesis by auto
  qed
qed

lemma max_first_split:
  "max_first b xs = e \<Longrightarrow>
     \<exists>pre post. b # xs = pre @ e # post \<and> (\<forall>x\<in>set pre. snd (snd x) < snd (snd e)) \<and>
                (\<forall>x\<in>set post. snd (snd x) \<le> snd (snd e))"
proof (induction xs arbitrary: b)
  case Nil
  then have "[b] = [] @ e # []" by simp
  then show ?case by (metis empty_iff list.set(1))
next
  case (Cons y ys)
  let ?b = "if snd (snd y) > snd (snd b) then y else b"
  from Cons.prems have "max_first ?b ys = e" by simp
  from Cons.IH[OF this] obtain pre post where s:
    "?b # ys = pre @ e # post" "\<forall>x\<in>set pre. snd (snd x) < snd (snd e)"
    "\<forall>x\<in>set post. snd (snd x) \<le> snd (snd e)" by blast
  show ?case
  proof (cases pre)
    case Nil
    with s(1) have e: "e = ?b" "post = ys" by simp_all
    show ?thesis
    proof (cases "snd (snd y) > snd (snd b)")
      case True
      with e s(3) have "b # y # ys = [b] @ e # ys \<and> (\<forall>x\<in>set [b]. snd (snd x) < snd (snd e)) \<and>
          (\<forall>x\<in>set ys. snd (snd x) \<le> snd (snd e))" by simp
      then show ?thesis by blast
    next
      case False
      with e s(3) have "b # y # ys = [] @ e # (y # ys) \<and> (\<forall>x\<in>set []. snd (snd x) < snd (snd e)) \<and>
          (\<forall>x\<in>set (y # ys). snd (snd x) \<le> snd (snd e))" by simp
      then show ?thesis by blast
    qed
  next
    case (Cons p pre')
    with s(1) have p: "p = ?b" "ys = pre' @ e # post" by simp_all
    from s(2) Cons p(1) have "snd (snd ?b) < snd (snd e)" by simp
    then have "snd (snd b) < snd (snd e)" "snd (snd y) < snd (snd e)"
      by (simp_all split: if_splits)
    with s(2,3) Cons p(2) have "b # y # ys = (b # y # pre') @ e # post \<and>
        (\<forall>x\<in>set (b # y # pre'). snd (snd x) < snd (snd e)) \<and>
        (\<forall>x\<in>set post. snd (snd x) \<le> snd (snd e))" by simp
    then show ?thesis by blast
  qed
qed


lemma counter_facts:
  "count_elements xs [] = Inr c \<Longrightarrow>
     (\<forall>e\<in>set c. py_hash (fst (snd e)) = Inr (fst e) \<and>
        snd (snd e) = length (filter (\<lambda>x. py_hash x = Inr (fst e)) xs)) \<and>
     (\<forall>c1 e c2. c = c1 @ e # c2 \<longrightarrow>
        (\<exists>pre post. xs = pre @ fst (snd e) # post \<and>
           (\<forall>s\<in>set pre. \<exists>e'\<in>set c1. py_hash s = Inr (fst e')))) \<and>
     (\<forall>x\<in>set xs. \<exists>e\<in>set c. py_hash x = Inr (fst e))"
proof (induction "length xs" arbitrary: xs c rule: less_induct)
  case less
  show ?case
  proof (cases xs)
    case Nil
    with less.prems show ?thesis by simp
  next
    case (Cons x xs')
    with less.prems obtain k0 where k0: "py_hash x = Inr k0"
      and r: "count_elements xs' [(k0, x, 1)] = Inr c"
      by (auto simp: then_do_Inr_iff)
    let ?ys = "filter (\<lambda>y. py_hash y \<noteq> Inr k0) xs'"
    let ?n0 = "1 + length (filter (\<lambda>y. py_hash y = Inr k0) xs')"
    from count_elements_head[OF r] obtain c'' where
      c'': "count_elements ?ys [] = Inr c''" and c: "c = (k0, x, ?n0) # c''" by blast
    have "length ?ys < length xs" using Cons by (simp add: le_imp_less_Suc)
    from less.hyps[OF this c''] have
      F1: "\<forall>e\<in>set c''. py_hash (fst (snd e)) = Inr (fst e) \<and>
             snd (snd e) = length (filter (\<lambda>x. py_hash x = Inr (fst e)) ?ys)"
      and F2: "\<forall>c1 e c2. c'' = c1 @ e # c2 \<longrightarrow>
             (\<exists>pre post. ?ys = pre @ fst (snd e) # post \<and>
                (\<forall>s\<in>set pre. \<exists>e'\<in>set c1. py_hash s = Inr (fst e')))"
      and F3: "\<forall>x\<in>set ?ys. \<exists>e\<in>set c''. py_hash x = Inr (fst e)"
      by blast+
    have in_ys: "fst (snd e) \<in> set ?ys" if "e \<in> set c''" for e
    proof -
      from that obtain c1 c2 where "c'' = c1 @ e # c2" by (meson split_list)
      with F2 obtain pre post where "?ys = pre @ fst (snd e) # post" by blast
      then show ?thesis by (metis in_set_conv_decomp)
    qed
    have G1: "\<forall>e\<in>set c. py_hash (fst (snd e)) = Inr (fst e) \<and>
        snd (snd e) = length (filter (\<lambda>x. py_hash x = Inr (fst e)) xs)"
    proof
      fix e assume "e \<in> set c"
      with c consider "e = (k0, x, ?n0)" | "e \<in> set c''" by auto
      then show "py_hash (fst (snd e)) = Inr (fst e) \<and>
        snd (snd e) = length (filter (\<lambda>x. py_hash x = Inr (fst e)) xs)"
      proof cases
        case 1
        with k0 Cons show ?thesis by simp
      next
        case 2
        with F1 have h: "py_hash (fst (snd e)) = Inr (fst e)"
          and n: "snd (snd e) = length (filter (\<lambda>x. py_hash x = Inr (fst e)) ?ys)" by auto
        from in_ys[OF 2] h have ne: "fst e \<noteq> k0" by auto
        then have "filter (\<lambda>x. py_hash x = Inr (fst e)) ?ys =
                   filter (\<lambda>x. py_hash x = Inr (fst e)) xs'"
          by (auto simp: filter_filter intro: filter_cong)
        with n h ne k0 Cons show ?thesis by simp
      qed
    qed
    have G2: "\<forall>c1 e c2. c = c1 @ e # c2 \<longrightarrow>
        (\<exists>pre post. xs = pre @ fst (snd e) # post \<and>
           (\<forall>s\<in>set pre. \<exists>e'\<in>set c1. py_hash s = Inr (fst e')))"
    proof (intro allI impI)
      fix c1 e c2 assume s: "c = c1 @ e # c2"
      show "\<exists>pre post. xs = pre @ fst (snd e) # post \<and>
           (\<forall>s\<in>set pre. \<exists>e'\<in>set c1. py_hash s = Inr (fst e'))"
      proof (cases c1)
        case Nil
        with s c have "e = (k0, x, ?n0)" by simp
        with Cons have "xs = [] @ fst (snd e) # xs' \<and>
           (\<forall>s\<in>set []. \<exists>e'\<in>set c1. py_hash s = Inr (fst e'))" by simp
        then show ?thesis by blast
      next
        case c1: (Cons e0 c1')
        with s c have e0: "e0 = (k0, x, ?n0)" and s': "c'' = c1' @ e # c2" by simp_all
        from F2 s' obtain pre post where p: "?ys = pre @ fst (snd e) # post"
          "\<forall>s\<in>set pre. \<exists>e'\<in>set c1'. py_hash s = Inr (fst e')" by blast
        from filter_split[OF p(1)] obtain a b where ab: "xs' = a @ fst (snd e) # b"
          "filter (\<lambda>y. py_hash y \<noteq> Inr k0) a = pre" by blast
        have "\<forall>s\<in>set (x # a). \<exists>e'\<in>set c1. py_hash s = Inr (fst e')"
        proof
          fix s assume "s \<in> set (x # a)"
          show "\<exists>e'\<in>set c1. py_hash s = Inr (fst e')"
          proof (cases "py_hash s = Inr k0")
            case True
            with c1 e0 show ?thesis by auto
          next
            case False
            with \<open>s \<in> set (x # a)\<close> k0 have "s \<in> set a" by auto
            with False ab(2) have "s \<in> set pre" by auto
            with p(2) c1 show ?thesis by auto
          qed
        qed
        with ab(1) Cons have "xs = (x # a) @ fst (snd e) # b \<and>
           (\<forall>s\<in>set (x # a). \<exists>e'\<in>set c1. py_hash s = Inr (fst e'))" by simp
        then show ?thesis by blast
      qed
    qed
    have G3: "\<forall>y\<in>set xs. \<exists>e\<in>set c. py_hash y = Inr (fst e)"
    proof
      fix y assume y: "y \<in> set xs"
      show "\<exists>e\<in>set c. py_hash y = Inr (fst e)"
      proof (cases "py_hash y = Inr k0")
        case True
        with c show ?thesis by auto
      next
        case False
        with y Cons k0 have "y \<in> set ?ys" by auto
        with F3 c show ?thesis by auto
      qed
    qed
    from G1 G2 G3 show ?thesis by blast
  qed
qed

lemma most_common_first_spec:
  assumes "Counter speakers = Inr c" and "most_common_first c = Inr r"
  shows "\<exists>pre post. speakers = pre @ r # post \<and>
           (\<forall>s\<in>set pre. occurrences s speakers < occurrences r speakers) \<and>
           (\<forall>s\<in>set post. occurrences s speakers \<le> occurrences r speakers)"
proof -
  from assms(1) have ce: "count_elements speakers [] = Inr c" by (simp add: Counter_def)
  from counter_facts[OF ce] have
    F1: "\<forall>e\<in>set c. py_hash (fst (snd e)) = Inr (fst e) \<and>
           snd (snd e) = length (filter (\<lambda>x. py_hash x = Inr (fst e)) speakers)"
    and F2: "\<forall>c1 e c2. c = c1 @ e # c2 \<longrightarrow>
           (\<exists>pre post. speakers = pre @ fst (snd e) # post \<and>
              (\<forall>s\<in>set pre. \<exists>e'\<in>set c1. py_hash s = Inr (fst e')))"
    and F3: "\<forall>x\<in>set speakers. \<exists>e\<in>set c. py_hash x = Inr (fst e)"
    by blast+
  have occ: "occurrences s speakers = snd (snd e)"
    if "e \<in> set c" "py_hash s = Inr (fst e)" for s e
    using that F1 by (simp add: occurrences_def)
  from assms(2) obtain b rest where c: "c = b # rest" and r: "r = fst (snd (max_first b rest))"
    by (auto simp: most_common_first_def split: list.splits)
  let ?e = "max_first b rest"
  from max_first_split[of b rest ?e] c obtain c1 c2 where s: "c = c1 @ ?e # c2"
    "\<forall>x\<in>set c1. snd (snd x) < snd (snd ?e)" "\<forall>x\<in>set c2. snd (snd x) \<le> snd (snd ?e)"
    by auto
  from s(1) have e_in: "?e \<in> set c" by simp
  with F1 r have hr: "py_hash r = Inr (fst ?e)" by simp
  from occ[OF e_in hr] have occ_r: "occurrences r speakers = snd (snd ?e)" .
  from F2 s(1) r obtain pre post where p: "speakers = pre @ r # post"
    "\<forall>s\<in>set pre. \<exists>e'\<in>set c1. py_hash s = Inr (fst e')" by blast
  have "\<forall>s\<in>set pre. occurrences s speakers < occurrences r speakers"
  proof
    fix x assume "x \<in> set pre"
    with p(2) obtain e' where e': "e' \<in> set c1" "py_hash x = Inr (fst e')" by blast
    with s(1) have "e' \<in> set c" by simp
    from occ[OF this e'(2)] s(2) e'(1) occ_r
    show "occurrences x speakers < occurrences r speakers" by simp
  qed
  moreover have "\<forall>s\<in>set post. occurrences s speakers \<le> occurrences r speakers"
  proof
    fix x assume "x \<in> set post"
    with p(1) have "x \<in> set speakers" by simp
    with F3 obtain e' where e': "e' \<in> set c" "py_hash x = Inr (fst e')" by blast
    from e'(1) s have "snd (snd e') \<le> snd (snd ?e)" by (auto simp: less_imp_le)
    with occ[OF e'] occ_r show "occurrences x speakers \<le> occurrences r speakers" by simp
  qed
  ultimately show ?thesis using p(1) by blast
qed


end
